theory Spec2Isabelle
  imports Main "HOL-Library.Word"
begin

section \<open>Session history storage: the data\<close>

text \<open>
  The development embeds \<^verbatim>\<open>consumer/session/session_storage.go\<close>: the table of
  active sessions, the four event consumers and the two transitions they share, and
  \<^verbatim>\<open>GetAll\<close>.
\<close>

subsection \<open>Time, identities, sessions\<close>

text \<open>
  A \<^verbatim>\<open>time.Time\<close> is an instant with a location. \<^verbatim>\<open>t.UTC()\<close> keeps the instant and
  sets the location to UTC. The zero value of \<^verbatim>\<open>time.Time\<close> is instant 0 in UTC.
\<close>

datatype Zone = ZoneUTC | ZoneLocal

record Time =
  instant :: int
  zone :: Zone

definition UTC :: "Time \<Rightarrow> Time" where
  "UTC t = t\<lparr>zone := ZoneUTC\<rparr>"

definition zeroTime :: Time where
  "zeroTime = \<lparr>instant = 0, zone = ZoneUTC\<rparr>"

text \<open>\<^verbatim>\<open>session_node.ID\<close> is a string type.\<close>

type_synonym ID = string

text \<open>\<^verbatim>\<open>identity.Identity\<close> wraps an address string.\<close>

record Identity =
  Address :: string

text \<open>\<^verbatim>\<open>common.Address\<close>, the accountant's address, is an array of bytes.\<close>

type_synonym HexAddress = "8 word list"

text \<open>Go's \<^verbatim>\<open>error\<close> values are represented by their message.\<close>

type_synonym error = string

record GeoLocation =
  Country :: string

text \<open>
  \<^verbatim>\<open>Proposal.ServiceDefinition\<close> is an interface; the code only calls
  \<^verbatim>\<open>GetLocation()\<close> on it. An interface value may be nil: the field of the proposal
  is \<open>None\<close> then, and the call on it panics.
\<close>

record ServiceDefinition =
  GetLocation :: GeoLocation

record Proposal =
  prop_ProviderID :: string
  prop_ServiceType :: string
  prop_ServiceDefinition :: "ServiceDefinition option"

record DataTransferred =
  Up :: "64 word"
  Down :: "64 word"

text \<open>\<^verbatim>\<open>session_node.Session\<close>, as far as \<^verbatim>\<open>consumeServiceSessionEvent\<close> reads it.\<close>

record Session =
  sess_ConsumerID :: Identity
  sess_AccountantID :: HexAddress
  sess_Proposal :: Proposal
  sess_DataTransferred :: DataTransferred
  sess_TokensEarned :: "64 word"
  sess_CreatedAt :: Time

text \<open>\<^verbatim>\<open>connection.SessionInfo\<close>, as far as the consumers read it.\<close>

record SessionInfo =
  info_SessionID :: ID
  info_ConsumerID :: Identity
  info_AccountantID :: HexAddress
  info_Proposal :: Proposal
  info_StartedAt :: Time

subsection \<open>The history record\<close>

text \<open>
  Modelled from the spec: the declaration of \<^verbatim>\<open>History\<close>, of its \<^verbatim>\<open>Direction\<close> and
  of its \<^verbatim>\<open>Status\<close> (file \<^verbatim>\<open>history.go\<close> of the package). The field names are the ones
  the storage code assigns; the spec gives \<^verbatim>\<open>Direction\<close> as Provider or Consumer,
  \<^verbatim>\<open>Status\<close> as New or Completed, the counters as byte and token counters and the two
  timestamps. \<^verbatim>\<open>StatusUnset\<close> is Go's zero value of \<^verbatim>\<open>Status\<close>, which a composite
  literal without that field leaves in place.
\<close>

datatype Direction = DirectionProvider | DirectionConsumer

datatype Status = StatusUnset | StatusNew | StatusCompleted

record History =
  SessionID :: ID
  Direction :: Direction
  ConsumerID :: Identity
  AccountantID :: string
  ProviderID :: Identity
  ServiceType :: string
  ProviderCountry :: string
  DataSent :: "64 word"
  DataReceived :: "64 word"
  Tokens :: "64 word"
  Status :: Status
  Started :: Time
  Updated :: Time

subsection \<open>Events\<close>

text \<open>
  The status of a service session event: the code distinguishes
  \<^verbatim>\<open>session_event.CreatedStatus\<close> and \<^verbatim>\<open>session_event.RemovedStatus\<close>; any other
  value falls through the switch.
\<close>

datatype EventStatus = CreatedStatus | RemovedStatus | OtherStatus string

record AppEventSession =
  ev_ID :: string
  ev_Status :: EventStatus

datatype ConnectionStatus = SessionCreatedStatus | SessionEndedStatus | SessionOtherStatus string

record AppEventConnectionSession =
  conn_Status :: ConnectionStatus
  conn_SessionInfo :: SessionInfo

record Statistics =
  BytesSent :: "64 word"
  BytesReceived :: "64 word"

record AppEventConnectionStatistics =
  Stats :: Statistics
  stat_SessionInfo :: SessionInfo

record Invoice =
  AgreementTotal :: "64 word"

record AppEventInvoicePaid =
  paid_SessionID :: string
  Invoice :: Invoice

section \<open>The storage and its dependencies\<close>

text \<open>
  Everything the storage does beyond returning is recorded, in order, in a trace: the
  operations on the mutex \<^verbatim>\<open>mu\<close>, the accesses to the map \<^verbatim>\<open>sessionsActive\<close>, the
  calls to the \<^verbatim>\<open>Storer\<close>, to \<^verbatim>\<open>timeGetter\<close> and to \<^verbatim>\<open>currentSessions.Find\<close>, and
  the log lines.
\<close>

datatype Effect =
    MuLock | MuUnlock | MuRLock | MuRUnlock
  | TableLookup ID | TableAssign ID | TableDelete ID
  | CallStore string History | CallUpdate string History | CallGetAllFrom string
  | CallTimeGetter | CallFind ID
  | LogWarn string | LogError error string | LogDebug string

text \<open>
  The dependencies of \<^verbatim>\<open>Storage\<close> are parameters. \<^verbatim>\<open>Storer\<close>, \<^verbatim>\<open>timeGetter\<close> and
  \<^verbatim>\<open>currentSessionStorage\<close> are stateful objects outside the storage: each of their
  methods takes the state \<open>'w\<close> of the outside world and returns the new one with its
  result. \<^verbatim>\<open>Store\<close> and \<^verbatim>\<open>Update\<close> return the error, if any. \<^verbatim>\<open>GetAllFrom\<close> returns
  what it wrote into the slice it was given, and the error. \<^verbatim>\<open>Find\<close> returns the
  session when it is found. \<^verbatim>\<open>Hex\<close> is \<^verbatim>\<open>common.Address.Hex\<close> and \<^verbatim>\<open>FromAddress\<close> is
  \<^verbatim>\<open>identity.FromAddress\<close>.
\<close>

record 'w Deps =
  Store :: "string \<Rightarrow> History \<Rightarrow> 'w \<Rightarrow> error option \<times> 'w"
  Update :: "string \<Rightarrow> History \<Rightarrow> 'w \<Rightarrow> error option \<times> 'w"
  GetAllFrom :: "string \<Rightarrow> 'w \<Rightarrow> (History list \<times> error option) \<times> 'w"
  timeGetter :: "'w \<Rightarrow> Time \<times> 'w"
  Find :: "ID \<Rightarrow> 'w \<Rightarrow> Session option \<times> 'w"
  Hex :: "HexAddress \<Rightarrow> string"
  FromAddress :: "string \<Rightarrow> Identity"

text \<open>
  The state: the outside world, the map \<^verbatim>\<open>sessionsActive\<close> and the trace so far.
\<close>

record 'w Storage =
  world :: 'w
  sessionsActive :: "ID \<rightharpoonup> History"
  trace :: "Effect list"

definition sessionStorageBucketName :: string where
  "sessionStorageBucketName = ''session-history''"

definition emit :: "Effect \<Rightarrow> 'w Storage \<Rightarrow> 'w Storage" where
  "emit e s = s\<lparr>trace := trace s @ [e]\<rparr>"

definition table_lookup :: "ID \<Rightarrow> 'w Storage \<Rightarrow> History option \<times> 'w Storage" where
  "table_lookup k s = (sessionsActive s k, emit (TableLookup k) s)"

definition table_assign :: "ID \<Rightarrow> History \<Rightarrow> 'w Storage \<Rightarrow> 'w Storage" where
  "table_assign k row s = emit (TableAssign k) (s\<lparr>sessionsActive := (sessionsActive s)(k \<mapsto> row)\<rparr>)"

definition table_delete :: "ID \<Rightarrow> 'w Storage \<Rightarrow> 'w Storage" where
  "table_delete k s = emit (TableDelete k) (s\<lparr>sessionsActive := (sessionsActive s)(k := None)\<rparr>)"

definition call_Store :: "'w Deps \<Rightarrow> string \<Rightarrow> History \<Rightarrow> 'w Storage \<Rightarrow> error option \<times> 'w Storage" where
  "call_Store P b row s =
     (let (err, w) = Store P b row (world s)
      in (err, emit (CallStore b row) (s\<lparr>world := w\<rparr>)))"

definition call_Update :: "'w Deps \<Rightarrow> string \<Rightarrow> History \<Rightarrow> 'w Storage \<Rightarrow> error option \<times> 'w Storage" where
  "call_Update P b row s =
     (let (err, w) = Update P b row (world s)
      in (err, emit (CallUpdate b row) (s\<lparr>world := w\<rparr>)))"

definition call_GetAllFrom :: "'w Deps \<Rightarrow> string \<Rightarrow> 'w Storage \<Rightarrow> (History list \<times> error option) \<times> 'w Storage" where
  "call_GetAllFrom P b s =
     (let (res, w) = GetAllFrom P b (world s)
      in (res, emit (CallGetAllFrom b) (s\<lparr>world := w\<rparr>)))"

definition call_timeGetter :: "'w Deps \<Rightarrow> 'w Storage \<Rightarrow> Time \<times> 'w Storage" where
  "call_timeGetter P s =
     (let (t, w) = timeGetter P (world s)
      in (t, emit CallTimeGetter (s\<lparr>world := w\<rparr>)))"

definition call_Find :: "'w Deps \<Rightarrow> ID \<Rightarrow> 'w Storage \<Rightarrow> Session option \<times> 'w Storage" where
  "call_Find P k s =
     (let (res, w) = Find P k (world s)
      in (res, emit (CallFind k) (s\<lparr>world := w\<rparr>)))"

section \<open>The operations\<close>

text \<open>
  A consumer either returns, with the state it leaves, or panics, with the state at the
  moment of the panic: what the trace holds then has happened, and nothing after it.
\<close>

datatype 'a Outcome = Returned 'a | Panicked string 'a

fun state_of :: "'a Outcome \<Rightarrow> 'a" where
  "state_of (Returned s) = s"
| "state_of (Panicked m s) = s"

fun returned :: "'a Outcome \<Rightarrow> bool" where
  "returned (Returned s) = True"
| "returned (Panicked m s) = False"

text \<open>The message of the panic of a method call on a nil interface value.\<close>

definition nilDereference :: string where
  "nilDereference = ''runtime error: invalid memory address or nil pointer dereference''"

text \<open>
  \<^verbatim>\<open>NewSessionStorage\<close>: the dependencies are the parameters above and the state of
  the outside world; the table starts empty.
\<close>

definition NewSessionStorage :: "'w \<Rightarrow> 'w Storage" where
  "NewSessionStorage w = \<lparr>world = w, sessionsActive = Map.empty, trace = []\<rparr>"

text \<open>
  \<^verbatim>\<open>GetAll\<close>: the slice starts as nil; an error of \<^verbatim>\<open>GetAllFrom\<close> is returned with a
  nil slice, whatever the call left in the slice.
\<close>

definition GetAll :: "'w Deps \<Rightarrow> 'w Storage \<Rightarrow> (error + History list) \<times> 'w Storage" where
  "GetAll P s =
     (let ((sessions, err), s) = call_GetAllFrom P sessionStorageBucketName s
      in case err of
           Some e \<Rightarrow> (Inl e, s)
         | None \<Rightarrow> (Inr sessions, s))"

text \<open>
  \<^verbatim>\<open>handleEndedEvent\<close>: takes the read lock, released on return.
\<close>

definition handleEndedEvent :: "'w Deps \<Rightarrow> ID \<Rightarrow> 'w Storage \<Rightarrow> 'w Storage" where
  "handleEndedEvent P sessionID s =
     (let s = emit MuRLock s;
          (found, s) = table_lookup sessionID s
      in case found of
           None \<Rightarrow>
             emit MuRUnlock
               (emit (LogWarn (''Can't find session '' @ sessionID @ '' to update'')) s)
         | Some row \<Rightarrow>
             (let (now, s) = call_timeGetter P s;
                  row = row\<lparr>Updated := UTC now\<rparr>;
                  row = row\<lparr>Status := StatusCompleted\<rparr>;
                  (err, s) = call_Update P sessionStorageBucketName row s
              in case err of
                   Some e \<Rightarrow>
                     emit MuRUnlock
                       (emit (LogError e (''Session '' @ sessionID @ '' update failed'')) s)
                 | None \<Rightarrow>
                     (let s = table_delete sessionID s
                      in emit MuRUnlock
                           (emit (LogDebug (''Session '' @ sessionID @ '' updated with final data'')) s))))"

text \<open>
  \<^verbatim>\<open>handleCreatedEvent\<close>: takes the write lock, released on return.
\<close>

definition handleCreatedEvent :: "'w Deps \<Rightarrow> ID \<Rightarrow> 'w Storage \<Rightarrow> 'w Storage" where
  "handleCreatedEvent P sessionID s =
     (let s = emit MuLock s;
          (found, s) = table_lookup sessionID s
      in case found of
           None \<Rightarrow>
             emit MuUnlock
               (emit (LogWarn (''Can't find session '' @ sessionID @ '' to store'')) s)
         | Some row \<Rightarrow>
             (let row = row\<lparr>Status := StatusNew\<rparr>;
                  (err, s) = call_Store P sessionStorageBucketName row s
              in case err of
                   Some e \<Rightarrow>
                     emit MuUnlock
                       (emit (LogError e (''Session '' @ SessionID row @ '' insert failed'')) s)
                 | None \<Rightarrow>
                     (let s = table_assign sessionID row s
                      in emit MuUnlock
                           (emit (LogDebug (''Session '' @ SessionID row @ '' saved'')) s))))"

text \<open>
  \<^verbatim>\<open>consumeServiceSessionEvent\<close>: the fields the composite literal leaves out
  (\<^verbatim>\<open>Status\<close>, \<^verbatim>\<open>Updated\<close>) have their zero values. The literal is evaluated
  after \<^verbatim>\<open>mu.Lock()\<close> and before the assignment to the map; the unlock is not
  deferred. When the service definition of the proposal is nil, \<^verbatim>\<open>GetLocation()\<close>
  panics there: nothing is assigned and the mutex stays locked.
\<close>

definition consumeServiceSessionEvent :: "'w Deps \<Rightarrow> AppEventSession \<Rightarrow> 'w Storage \<Rightarrow> 'w Storage Outcome" where
  "consumeServiceSessionEvent P e s =
     (let sessionID = ev_ID e;
          (res, s) = call_Find P sessionID s
      in case res of
           None \<Rightarrow> Returned (emit (LogWarn ''Received a unknown session update'') s)
         | Some sessionInstance \<Rightarrow>
             (let s = emit MuLock s
              in case prop_ServiceDefinition (sess_Proposal sessionInstance) of
                   None \<Rightarrow> Panicked nilDereference s
                 | Some serviceDefinition \<Rightarrow>
                     (let s = table_assign sessionID
                                \<lparr>SessionID = sessionID,
                                 Direction = DirectionProvider,
                                 ConsumerID = sess_ConsumerID sessionInstance,
                                 AccountantID = Hex P (sess_AccountantID sessionInstance),
                                 ProviderID =
                                   FromAddress P (prop_ProviderID (sess_Proposal sessionInstance)),
                                 ServiceType = prop_ServiceType (sess_Proposal sessionInstance),
                                 ProviderCountry = Country (GetLocation serviceDefinition),
                                 DataSent = Up (sess_DataTransferred sessionInstance),
                                 DataReceived = Down (sess_DataTransferred sessionInstance),
                                 Tokens = sess_TokensEarned sessionInstance,
                                 Status = StatusUnset,
                                 Started = UTC (sess_CreatedAt sessionInstance),
                                 Updated = zeroTime\<rparr> s;
                          s = emit MuUnlock s
                      in Returned
                           (case ev_Status e of
                              RemovedStatus \<Rightarrow> handleEndedEvent P sessionID s
                            | CreatedStatus \<Rightarrow> handleCreatedEvent P sessionID s
                            | OtherStatus x \<Rightarrow> s))))"

text \<open>
  \<^verbatim>\<open>consumeConnectionSessionEvent\<close>: the composite literal leaves out \<^verbatim>\<open>DataSent\<close>,
  \<^verbatim>\<open>DataReceived\<close>, \<^verbatim>\<open>Tokens\<close>, \<^verbatim>\<open>Status\<close> and \<^verbatim>\<open>Updated\<close>. As in the
  service level consumer, a nil service definition makes \<^verbatim>\<open>GetLocation()\<close> panic
  between \<^verbatim>\<open>mu.Lock()\<close> and the assignment to the map.
\<close>

definition consumeConnectionSessionEvent :: "'w Deps \<Rightarrow> AppEventConnectionSession \<Rightarrow> 'w Storage \<Rightarrow> 'w Storage Outcome" where
  "consumeConnectionSessionEvent P e s =
     (let sessionID = info_SessionID (conn_SessionInfo e)
      in case conn_Status e of
           SessionEndedStatus \<Rightarrow> Returned (handleEndedEvent P sessionID s)
         | SessionCreatedStatus \<Rightarrow>
             (let s = emit MuLock s
              in case prop_ServiceDefinition (info_Proposal (conn_SessionInfo e)) of
                   None \<Rightarrow> Panicked nilDereference s
                 | Some serviceDefinition \<Rightarrow>
                     (let s = table_assign sessionID
                                \<lparr>SessionID = sessionID,
                                 Direction = DirectionConsumer,
                                 ConsumerID = info_ConsumerID (conn_SessionInfo e),
                                 AccountantID = Hex P (info_AccountantID (conn_SessionInfo e)),
                                 ProviderID =
                                   FromAddress P (prop_ProviderID (info_Proposal (conn_SessionInfo e))),
                                 ServiceType = prop_ServiceType (info_Proposal (conn_SessionInfo e)),
                                 ProviderCountry = Country (GetLocation serviceDefinition),
                                 DataSent = 0,
                                 DataReceived = 0,
                                 Tokens = 0,
                                 Status = StatusUnset,
                                 Started = UTC (info_StartedAt (conn_SessionInfo e)),
                                 Updated = zeroTime\<rparr> s;
                          s = emit MuUnlock s
                      in Returned (handleCreatedEvent P sessionID s)))
         | SessionOtherStatus x \<Rightarrow> Returned s)"

definition consumeConnectionStatisticsEvent :: "AppEventConnectionStatistics \<Rightarrow> 'w Storage \<Rightarrow> 'w Storage" where
  "consumeConnectionStatisticsEvent e s =
     (let s = emit MuLock s;
          (found, s) = table_lookup (info_SessionID (stat_SessionInfo e)) s
      in case found of
           None \<Rightarrow> emit MuUnlock (emit (LogWarn ''Received a unknown session update'') s)
         | Some row \<Rightarrow>
             (let row = row\<lparr>DataSent := BytesSent (Stats e)\<rparr>;
                  row = row\<lparr>DataReceived := BytesReceived (Stats e)\<rparr>;
                  s = table_assign (info_SessionID (stat_SessionInfo e)) row s
              in emit MuUnlock s))"

definition consumeConnectionSpendingEvent :: "'w Deps \<Rightarrow> AppEventInvoicePaid \<Rightarrow> 'w Storage \<Rightarrow> 'w Storage" where
  "consumeConnectionSpendingEvent P e s =
     (let s = emit MuLock s;
          sessionID = paid_SessionID e;
          (found, s) = table_lookup sessionID s
      in case found of
           None \<Rightarrow> emit MuUnlock (emit (LogWarn ''Received a unknown session update'') s)
         | Some row \<Rightarrow>
             (let (now, s) = call_timeGetter P s;
                  row = row\<lparr>Updated := UTC now\<rparr>;
                  row = row\<lparr>Tokens := AgreementTotal (Invoice e)\<rparr>;
                  (err, s) = call_Update P sessionStorageBucketName row s
              in case err of
                   Some err \<Rightarrow>
                     emit MuUnlock
                       (emit (LogError err (''Session '' @ sessionID @ '' update failed'')) s)
                 | None \<Rightarrow>
                     (let s = table_assign sessionID row s
                      in emit MuUnlock
                           (emit (LogDebug (''Session '' @ sessionID @ '' updated'')) s))))"

text \<open>
  \<^verbatim>\<open>Subscribe\<close> registers one consumer per topic; the bus then delivers each published
  event to the consumer of its topic. Events delivered one after the other stop at the
  first panic.
\<close>

datatype Event =
    ServiceSession AppEventSession
  | ConnectionSession AppEventConnectionSession
  | ConnectionStatistics AppEventConnectionStatistics
  | InvoicePaid AppEventInvoicePaid

fun deliver :: "'w Deps \<Rightarrow> Event \<Rightarrow> 'w Storage \<Rightarrow> 'w Storage Outcome" where
  "deliver P (ServiceSession e) s = consumeServiceSessionEvent P e s"
| "deliver P (ConnectionSession e) s = consumeConnectionSessionEvent P e s"
| "deliver P (ConnectionStatistics e) s = Returned (consumeConnectionStatisticsEvent e s)"
| "deliver P (InvoicePaid e) s = Returned (consumeConnectionSpendingEvent P e s)"


section \<open>Reading the trace\<close>

text \<open>What an operation added to the trace, from the state before and the state after.\<close>

definition effects_since :: "'w Storage \<Rightarrow> 'w Storage \<Rightarrow> Effect list" where
  "effects_since s s' = drop (length (trace s)) (trace s')"

fun is_storer_call :: "Effect \<Rightarrow> bool" where
  "is_storer_call (CallStore b h) = True"
| "is_storer_call (CallUpdate b h) = True"
| "is_storer_call (CallGetAllFrom b) = True"
| "is_storer_call x = False"

definition storer_calls :: "Effect list \<Rightarrow> Effect list" where
  "storer_calls es = filter is_storer_call es"

fun is_store_call :: "Effect \<Rightarrow> bool" where
  "is_store_call (CallStore b h) = True"
| "is_store_call x = False"

definition store_calls :: "Effect list \<Rightarrow> Effect list" where
  "store_calls es = filter is_store_call es"

fun is_table_access :: "Effect \<Rightarrow> bool" where
  "is_table_access (TableLookup k) = True"
| "is_table_access (TableAssign k) = True"
| "is_table_access (TableDelete k) = True"
| "is_table_access x = False"

fun is_mutex_op :: "Effect \<Rightarrow> bool" where
  "is_mutex_op MuLock = True"
| "is_mutex_op MuUnlock = True"
| "is_mutex_op MuRLock = True"
| "is_mutex_op MuRUnlock = True"
| "is_mutex_op x = False"

text \<open>The mutex operations and the table accesses of a trace, in order.\<close>

fun mutex_view :: "Effect list \<Rightarrow> Effect list" where
  "mutex_view [] = []"
| "mutex_view (e # es) =
     (if is_mutex_op e \<or> is_table_access e then e # mutex_view es else mutex_view es)"

text \<open>The events that run the create transition.\<close>

fun is_created_event :: "Event \<Rightarrow> bool" where
  "is_created_event (ServiceSession e) = (ev_Status e = CreatedStatus)"
| "is_created_event (ConnectionSession e) = (conn_Status e = SessionCreatedStatus)"
| "is_created_event x = False"

text \<open>
  The records the two session consumers put into the table, named for the statements
  below; \<open>serviceDefinition\<close> is the service definition of the proposal, when it is
  not nil.
\<close>

definition providerHistory :: "'w Deps \<Rightarrow> ID \<Rightarrow> Session \<Rightarrow> ServiceDefinition \<Rightarrow> History" where
  "providerHistory P sessionID sessionInstance serviceDefinition =
     \<lparr>SessionID = sessionID,
      Direction = DirectionProvider,
      ConsumerID = sess_ConsumerID sessionInstance,
      AccountantID = Hex P (sess_AccountantID sessionInstance),
      ProviderID = FromAddress P (prop_ProviderID (sess_Proposal sessionInstance)),
      ServiceType = prop_ServiceType (sess_Proposal sessionInstance),
      ProviderCountry = Country (GetLocation serviceDefinition),
      DataSent = Up (sess_DataTransferred sessionInstance),
      DataReceived = Down (sess_DataTransferred sessionInstance),
      Tokens = sess_TokensEarned sessionInstance,
      Status = StatusUnset,
      Started = UTC (sess_CreatedAt sessionInstance),
      Updated = zeroTime\<rparr>"

definition consumerHistory :: "'w Deps \<Rightarrow> SessionInfo \<Rightarrow> ServiceDefinition \<Rightarrow> History" where
  "consumerHistory P info serviceDefinition =
     \<lparr>SessionID = info_SessionID info,
      Direction = DirectionConsumer,
      ConsumerID = info_ConsumerID info,
      AccountantID = Hex P (info_AccountantID info),
      ProviderID = FromAddress P (prop_ProviderID (info_Proposal info)),
      ServiceType = prop_ServiceType (info_Proposal info),
      ProviderCountry = Country (GetLocation serviceDefinition),
      DataSent = 0,
      DataReceived = 0,
      Tokens = 0,
      Status = StatusUnset,
      Started = UTC (info_StartedAt info),
      Updated = zeroTime\<rparr>"

subsection \<open>The mutex along a trace\<close>

text \<open>
  A \<^verbatim>\<open>sync.RWMutex\<close> as one goroutine sees it: free, held for reading
  (\<^verbatim>\<open>RLock\<close>) or held for writing (\<^verbatim>\<open>Lock\<close>). \<open>mu_step strict\<close> follows one effect
  and gives \<open>None\<close> when the effect breaks the discipline: a lock taken while held, an
  unlock that does not match, a table access while the mutex is free and, when
  \<open>strict\<close>, an assignment to the map or a deletion from it while the mutex is held
  for reading only.
\<close>

datatype Mode = Free | Shared | Exclusive

fun mu_step :: "bool \<Rightarrow> Mode \<Rightarrow> Effect \<Rightarrow> Mode option" where
  "mu_step strict m MuLock = (if m = Free then Some Exclusive else None)"
| "mu_step strict m MuRLock = (if m = Free then Some Shared else None)"
| "mu_step strict m MuUnlock = (if m = Exclusive then Some Free else None)"
| "mu_step strict m MuRUnlock = (if m = Shared then Some Free else None)"
| "mu_step strict m (TableLookup k) = (if m = Free then None else Some m)"
| "mu_step strict m (TableAssign k) =
     (if m = Exclusive then Some m
      else if m = Shared then (if strict then None else Some m)
      else None)"
| "mu_step strict m (TableDelete k) =
     (if m = Exclusive then Some m
      else if m = Shared then (if strict then None else Some m)
      else None)"
| "mu_step strict m x = Some m"

fun mu_run :: "bool \<Rightarrow> Mode \<Rightarrow> Effect list \<Rightarrow> Mode option" where
  "mu_run strict m [] = Some m"
| "mu_run strict m (e # es) =
     (case mu_step strict m e of None \<Rightarrow> None | Some m' \<Rightarrow> mu_run strict m' es)"

section \<open>A persistence port and an outside world\<close>

text \<open>
  Modelled from the spec: the persistence engine behind \<^verbatim>\<open>Storer\<close>, which is not
  part of the storage code. The spec gives \<^verbatim>\<open>Store\<close> as an insert that fails when the
  engine rejects the write (duplicate key, I/O error), \<^verbatim>\<open>Update\<close> as an upsert of a
  record by its key with the same failure modes, and \<^verbatim>\<open>GetAllFrom\<close> as a read of all
  records of the collection in storage order. The key of a history record is its
  \<^verbatim>\<open>SessionID\<close>. An I/O error is an input: \<open>faults\<close> lists, for the writes to
  come, whether the engine rejects each one.

  The world also holds the clock read by \<^verbatim>\<open>timeGetter\<close> (a count of the readings so
  far) and the table of current sessions that \<^verbatim>\<open>Find\<close> reads.
\<close>

record World =
  buckets :: "string \<Rightarrow> History list"
  faults :: "bool list"
  ticks :: nat
  current :: "ID \<rightharpoonup> Session"

fun kv_upsert :: "History \<Rightarrow> History list \<Rightarrow> History list" where
  "kv_upsert h [] = [h]"
| "kv_upsert h (r # rs) = (if SessionID r = SessionID h then h # rs else r # kv_upsert h rs)"

definition kvStore :: "string \<Rightarrow> History \<Rightarrow> World \<Rightarrow> error option \<times> World" where
  "kvStore b h w =
     (case faults w of
        True # fs \<Rightarrow> (Some ''i/o error'', w\<lparr>faults := fs\<rparr>)
      | _ \<Rightarrow>
          (if SessionID h \<in> set (map SessionID (buckets w b))
           then (Some ''already exists'', w\<lparr>faults := tl (faults w)\<rparr>)
           else (None, w\<lparr>buckets := (buckets w)(b := buckets w b @ [h]),
                          faults := tl (faults w)\<rparr>)))"

definition kvUpdate :: "string \<Rightarrow> History \<Rightarrow> World \<Rightarrow> error option \<times> World" where
  "kvUpdate b h w =
     (case faults w of
        True # fs \<Rightarrow> (Some ''i/o error'', w\<lparr>faults := fs\<rparr>)
      | _ \<Rightarrow> (None, w\<lparr>buckets := (buckets w)(b := kv_upsert h (buckets w b)),
                       faults := tl (faults w)\<rparr>))"

definition kvGetAllFrom :: "string \<Rightarrow> World \<Rightarrow> (History list \<times> error option) \<times> World" where
  "kvGetAllFrom b w = ((buckets w b, None), w)"

definition kvDeps :: "(nat \<Rightarrow> Time) \<Rightarrow> (HexAddress \<Rightarrow> string) \<Rightarrow> (string \<Rightarrow> Identity) \<Rightarrow> World Deps" where
  "kvDeps clock hex fromAddress =
     \<lparr>Store = kvStore,
      Update = kvUpdate,
      GetAllFrom = kvGetAllFrom,
      timeGetter = (\<lambda>w. (clock (ticks w), w\<lparr>ticks := Suc (ticks w)\<rparr>)),
      Find = (\<lambda>k w. (current w k, w)),
      Hex = hex,
      FromAddress = fromAddress\<rparr>"

text \<open>The records of the session history collection.\<close>

definition durable :: "World \<Rightarrow> History list" where
  "durable w = buckets w sessionStorageBucketName"


subsection \<open>Event sequences for one session\<close>



fun is_update_for :: "ID \<Rightarrow> Event \<Rightarrow> bool" where
  "is_update_for sid (ConnectionStatistics e) = (info_SessionID (stat_SessionInfo e) = sid)"
| "is_update_for sid (InvoicePaid e) = (paid_SessionID e = sid)"
| "is_update_for sid x = False"

fun is_connection_end_for :: "ID \<Rightarrow> Event \<Rightarrow> bool" where
  "is_connection_end_for sid (ConnectionSession e) =
     (conn_Status e = SessionEndedStatus \<and> info_SessionID (conn_SessionInfo e) = sid)"
| "is_connection_end_for sid x = False"

fun is_service_end_for :: "ID \<Rightarrow> Event \<Rightarrow> bool" where
  "is_service_end_for sid (ServiceSession e) = (ev_Status e = RemovedStatus \<and> ev_ID e = sid)"
| "is_service_end_for sid x = False"







subsection \<open>Fixtures\<close>

text \<open>Concrete dependencies, events and states on which the statements are evaluated.\<close>

definition exClock :: "nat \<Rightarrow> Time" where
  "exClock n = \<lparr>instant = 1000 + int n, zone = ZoneLocal\<rparr>"

definition exHex :: "HexAddress \<Rightarrow> string" where
  "exHex a = ''0xCC''"

definition exFromAddress :: "string \<Rightarrow> Identity" where
  "exFromAddress a = \<lparr>Address = a\<rparr>"

definition exDeps :: "World Deps" where
  "exDeps = kvDeps exClock exHex exFromAddress"

definition exDefinition :: ServiceDefinition where
  "exDefinition = \<lparr>GetLocation = \<lparr>Country = ''LT''\<rparr>\<rparr>"

definition exProposal :: Proposal where
  "exProposal =
     \<lparr>prop_ProviderID = ''0xBB'',
      prop_ServiceType = ''wireguard'',
      prop_ServiceDefinition = Some exDefinition\<rparr>"

definition exInfo :: SessionInfo where
  "exInfo =
     \<lparr>info_SessionID = ''s1'',
      info_ConsumerID = \<lparr>Address = ''0xAA''\<rparr>,
      info_AccountantID = [],
      info_Proposal = exProposal,
      info_StartedAt = \<lparr>instant = 900, zone = ZoneLocal\<rparr>\<rparr>"

definition exSession :: Session where
  "exSession =
     \<lparr>sess_ConsumerID = \<lparr>Address = ''0xAA''\<rparr>,
      sess_AccountantID = [],
      sess_Proposal = exProposal,
      sess_DataTransferred = \<lparr>Up = 0, Down = 0\<rparr>,
      sess_TokensEarned = 0,
      sess_CreatedAt = \<lparr>instant = 900, zone = ZoneLocal\<rparr>\<rparr>"

definition exConnCreated :: Event where
  "exConnCreated = ConnectionSession \<lparr>conn_Status = SessionCreatedStatus, conn_SessionInfo = exInfo\<rparr>"

text \<open>The created event of \<^verbatim>\<open>s1\<close> with a nil service definition in its proposal.\<close>

definition exConnCreatedNil :: Event where
  "exConnCreatedNil =
     ConnectionSession
       \<lparr>conn_Status = SessionCreatedStatus,
        conn_SessionInfo = exInfo\<lparr>info_Proposal := exProposal\<lparr>prop_ServiceDefinition := None\<rparr>\<rparr>\<rparr>"

definition exConnEnded :: Event where
  "exConnEnded = ConnectionSession \<lparr>conn_Status = SessionEndedStatus, conn_SessionInfo = exInfo\<rparr>"

definition exSvcCreated :: Event where
  "exSvcCreated = ServiceSession \<lparr>ev_ID = ''s1'', ev_Status = CreatedStatus\<rparr>"

definition exSvcRemoved :: Event where
  "exSvcRemoved = ServiceSession \<lparr>ev_ID = ''s1'', ev_Status = RemovedStatus\<rparr>"

definition exStats :: AppEventConnectionStatistics where
  "exStats = \<lparr>Stats = \<lparr>BytesSent = 100, BytesReceived = 50\<rparr>, stat_SessionInfo = exInfo\<rparr>"

definition exPaid :: AppEventInvoicePaid where
  "exPaid = \<lparr>paid_SessionID = ''s1'', Invoice = \<lparr>AgreementTotal = 5\<rparr>\<rparr>"

text \<open>
  An empty store with no fault to come and no current session; the same with the session
  \<^verbatim>\<open>s1\<close> current; the same with the next write rejected.
\<close>

definition exWorld :: World where
  "exWorld = \<lparr>buckets = (\<lambda>b. []), faults = [], ticks = 0, current = Map.empty\<rparr>"

definition exWorldCurrent :: World where
  "exWorldCurrent = exWorld\<lparr>current := [''s1'' \<mapsto> exSession]\<rparr>"

definition exWorldFaulty :: World where
  "exWorldFaulty = exWorld\<lparr>faults := [True]\<rparr>"

definition exStorage :: "World \<Rightarrow> World Storage" where
  "exStorage w = NewSessionStorage w"

text \<open>A storage whose table holds the consumer record of \<^verbatim>\<open>s1\<close>.\<close>

definition exActive :: "World \<Rightarrow> World Storage" where
  "exActive w =
     \<lparr>world = w, sessionsActive = [''s1'' \<mapsto> consumerHistory exDeps exInfo exDefinition],
      trace = []\<rparr>"

text \<open>
  The storage after a connection level created event whose \<^verbatim>\<open>Store\<close> the engine
  rejected, and the storage after a service level removed event that ended the session
  \<^verbatim>\<open>s1\<close> while it is still current.
\<close>

definition exAfterFailedCreate :: "World Storage" where
  "exAfterFailedCreate = state_of (deliver exDeps exConnCreated (exStorage exWorldFaulty))"

definition exAfterRemoved :: "World Storage" where
  "exAfterRemoved = state_of (deliver exDeps exSvcRemoved (exStorage exWorldCurrent))"

text \<open>The storage after the end transition of \<^verbatim>\<open>s1\<close> from \<open>exActive w\<close>.\<close>

definition exEnded :: "World \<Rightarrow> World Storage" where
  "exEnded w = handleEndedEvent exDeps ''s1'' (exActive w)"


subsection \<open>The invariant of a session between its create and its end event\<close>



section \<open>The operations, branch by branch\<close>

lemmas prim_defs = emit_def table_lookup_def table_assign_def table_delete_def
  call_Store_def call_Update_def call_GetAllFrom_def call_timeGetter_def call_Find_def

lemma handleEndedEvent_miss:
  "sessionsActive s k = None \<Longrightarrow>
   handleEndedEvent P k s =
     s\<lparr>trace := trace s @ [MuRLock, TableLookup k,
          LogWarn (''Can't find session '' @ k @ '' to update''), MuRUnlock]\<rparr>"
  by (simp add: handleEndedEvent_def prim_defs Let_def)

lemma handleEndedEvent_fail:
  "sessionsActive s k = Some row \<Longrightarrow> timeGetter P (world s) = (now, w1) \<Longrightarrow>
   Update P sessionStorageBucketName (row\<lparr>Updated := UTC now, Status := StatusCompleted\<rparr>) w1 = (Some e, w2) \<Longrightarrow>
   handleEndedEvent P k s =
     s\<lparr>world := w2,
       trace := trace s @ [MuRLock, TableLookup k, CallTimeGetter,
          CallUpdate sessionStorageBucketName (row\<lparr>Updated := UTC now, Status := StatusCompleted\<rparr>),
          LogError e (''Session '' @ k @ '' update failed''), MuRUnlock]\<rparr>"
  by (simp add: handleEndedEvent_def prim_defs Let_def)

lemma handleEndedEvent_ok:
  "sessionsActive s k = Some row \<Longrightarrow> timeGetter P (world s) = (now, w1) \<Longrightarrow>
   Update P sessionStorageBucketName (row\<lparr>Updated := UTC now, Status := StatusCompleted\<rparr>) w1 = (None, w2) \<Longrightarrow>
   handleEndedEvent P k s =
     s\<lparr>world := w2, sessionsActive := (sessionsActive s)(k := None),
       trace := trace s @ [MuRLock, TableLookup k, CallTimeGetter,
          CallUpdate sessionStorageBucketName (row\<lparr>Updated := UTC now, Status := StatusCompleted\<rparr>),
          TableDelete k,
          LogDebug (''Session '' @ k @ '' updated with final data''), MuRUnlock]\<rparr>"
  by (simp add: handleEndedEvent_def prim_defs Let_def)

lemma handleCreatedEvent_miss:
  "sessionsActive s k = None \<Longrightarrow>
   handleCreatedEvent P k s =
     s\<lparr>trace := trace s @ [MuLock, TableLookup k,
          LogWarn (''Can't find session '' @ k @ '' to store''), MuUnlock]\<rparr>"
  by (simp add: handleCreatedEvent_def prim_defs Let_def)

lemma handleCreatedEvent_fail:
  "sessionsActive s k = Some row \<Longrightarrow>
   Store P sessionStorageBucketName (row\<lparr>Status := StatusNew\<rparr>) (world s) = (Some e, w2) \<Longrightarrow>
   handleCreatedEvent P k s =
     s\<lparr>world := w2,
       trace := trace s @ [MuLock, TableLookup k,
          CallStore sessionStorageBucketName (row\<lparr>Status := StatusNew\<rparr>),
          LogError e (''Session '' @ SessionID row @ '' insert failed''), MuUnlock]\<rparr>"
  by (simp add: handleCreatedEvent_def prim_defs Let_def)

lemma handleCreatedEvent_ok:
  "sessionsActive s k = Some row \<Longrightarrow>
   Store P sessionStorageBucketName (row\<lparr>Status := StatusNew\<rparr>) (world s) = (None, w2) \<Longrightarrow>
   handleCreatedEvent P k s =
     s\<lparr>world := w2, sessionsActive := (sessionsActive s)(k \<mapsto> row\<lparr>Status := StatusNew\<rparr>),
       trace := trace s @ [MuLock, TableLookup k,
          CallStore sessionStorageBucketName (row\<lparr>Status := StatusNew\<rparr>),
          TableAssign k,
          LogDebug (''Session '' @ SessionID row @ '' saved''), MuUnlock]\<rparr>"
  by (simp add: handleCreatedEvent_def prim_defs Let_def)

lemma statistics_miss:
  "sessionsActive s (info_SessionID (stat_SessionInfo e)) = None \<Longrightarrow>
   consumeConnectionStatisticsEvent e s =
     s\<lparr>trace := trace s @ [MuLock, TableLookup (info_SessionID (stat_SessionInfo e)),
          LogWarn ''Received a unknown session update'', MuUnlock]\<rparr>"
  by (simp add: consumeConnectionStatisticsEvent_def prim_defs Let_def)

lemma statistics_hit:
  "sessionsActive s (info_SessionID (stat_SessionInfo e)) = Some row \<Longrightarrow>
   consumeConnectionStatisticsEvent e s =
     s\<lparr>sessionsActive := (sessionsActive s)(info_SessionID (stat_SessionInfo e) \<mapsto>
          row\<lparr>DataSent := BytesSent (Stats e), DataReceived := BytesReceived (Stats e)\<rparr>),
       trace := trace s @ [MuLock, TableLookup (info_SessionID (stat_SessionInfo e)),
          TableAssign (info_SessionID (stat_SessionInfo e)), MuUnlock]\<rparr>"
  by (simp add: consumeConnectionStatisticsEvent_def prim_defs Let_def)

lemma spending_miss:
  "sessionsActive s (paid_SessionID e) = None \<Longrightarrow>
   consumeConnectionSpendingEvent P e s =
     s\<lparr>trace := trace s @ [MuLock, TableLookup (paid_SessionID e),
          LogWarn ''Received a unknown session update'', MuUnlock]\<rparr>"
  by (simp add: consumeConnectionSpendingEvent_def prim_defs Let_def)

lemma spending_fail:
  "sessionsActive s (paid_SessionID e) = Some row \<Longrightarrow> timeGetter P (world s) = (now, w1) \<Longrightarrow>
   Update P sessionStorageBucketName
     (row\<lparr>Updated := UTC now, Tokens := AgreementTotal (Invoice e)\<rparr>) w1 = (Some err, w2) \<Longrightarrow>
   consumeConnectionSpendingEvent P e s =
     s\<lparr>world := w2,
       trace := trace s @ [MuLock, TableLookup (paid_SessionID e), CallTimeGetter,
          CallUpdate sessionStorageBucketName
            (row\<lparr>Updated := UTC now, Tokens := AgreementTotal (Invoice e)\<rparr>),
          LogError err (''Session '' @ paid_SessionID e @ '' update failed''), MuUnlock]\<rparr>"
  by (simp add: consumeConnectionSpendingEvent_def prim_defs Let_def)

lemma spending_ok:
  "sessionsActive s (paid_SessionID e) = Some row \<Longrightarrow> timeGetter P (world s) = (now, w1) \<Longrightarrow>
   Update P sessionStorageBucketName
     (row\<lparr>Updated := UTC now, Tokens := AgreementTotal (Invoice e)\<rparr>) w1 = (None, w2) \<Longrightarrow>
   consumeConnectionSpendingEvent P e s =
     s\<lparr>world := w2,
       sessionsActive := (sessionsActive s)(paid_SessionID e \<mapsto>
          row\<lparr>Updated := UTC now, Tokens := AgreementTotal (Invoice e)\<rparr>),
       trace := trace s @ [MuLock, TableLookup (paid_SessionID e), CallTimeGetter,
          CallUpdate sessionStorageBucketName
            (row\<lparr>Updated := UTC now, Tokens := AgreementTotal (Invoice e)\<rparr>),
          TableAssign (paid_SessionID e),
          LogDebug (''Session '' @ paid_SessionID e @ '' updated''), MuUnlock]\<rparr>"
  by (simp add: consumeConnectionSpendingEvent_def prim_defs Let_def)

lemma effects_since_append [simp]:
  "trace s' = trace s @ es \<Longrightarrow> effects_since s s' = es"
  by (simp add: effects_since_def)

lemma service_notfound:
  "Find P (ev_ID e) (world s) = (None, w1) \<Longrightarrow>
   consumeServiceSessionEvent P e s =
     Returned
       (s\<lparr>world := w1,
          trace := trace s @ [CallFind (ev_ID e), LogWarn ''Received a unknown session update'']\<rparr>)"
  by (simp add: consumeServiceSessionEvent_def prim_defs Let_def)

lemma service_nil:
  "Find P (ev_ID e) (world s) = (Some i, w1) \<Longrightarrow>
   prop_ServiceDefinition (sess_Proposal i) = None \<Longrightarrow>
   consumeServiceSessionEvent P e s =
     Panicked nilDereference
       (s\<lparr>world := w1, trace := trace s @ [CallFind (ev_ID e), MuLock]\<rparr>)"
  by (simp add: consumeServiceSessionEvent_def prim_defs Let_def)

lemma service_found:
  "Find P (ev_ID e) (world s) = (Some i, w1) \<Longrightarrow>
   prop_ServiceDefinition (sess_Proposal i) = Some d \<Longrightarrow>
   consumeServiceSessionEvent P e s =
     Returned
       ((case ev_Status e of
           RemovedStatus \<Rightarrow> handleEndedEvent P (ev_ID e)
         | CreatedStatus \<Rightarrow> handleCreatedEvent P (ev_ID e)
         | OtherStatus x \<Rightarrow> (\<lambda>s. s))
        (s\<lparr>world := w1,
           sessionsActive := (sessionsActive s)(ev_ID e \<mapsto> providerHistory P (ev_ID e) i d),
           trace := trace s @ [CallFind (ev_ID e), MuLock, TableAssign (ev_ID e), MuUnlock]\<rparr>))"
  by (simp add: consumeServiceSessionEvent_def prim_defs Let_def providerHistory_def
      split: EventStatus.splits)

lemma connection_created_nil:
  "conn_Status e = SessionCreatedStatus \<Longrightarrow>
   prop_ServiceDefinition (info_Proposal (conn_SessionInfo e)) = None \<Longrightarrow>
   consumeConnectionSessionEvent P e s =
     Panicked nilDereference (s\<lparr>trace := trace s @ [MuLock]\<rparr>)"
  by (simp add: consumeConnectionSessionEvent_def prim_defs Let_def)

lemma connection_created:
  "conn_Status e = SessionCreatedStatus \<Longrightarrow>
   prop_ServiceDefinition (info_Proposal (conn_SessionInfo e)) = Some d \<Longrightarrow>
   consumeConnectionSessionEvent P e s =
     Returned
       (handleCreatedEvent P (info_SessionID (conn_SessionInfo e))
          (s\<lparr>sessionsActive := (sessionsActive s)(info_SessionID (conn_SessionInfo e) \<mapsto>
                consumerHistory P (conn_SessionInfo e) d),
             trace := trace s @ [MuLock, TableAssign (info_SessionID (conn_SessionInfo e)), MuUnlock]\<rparr>))"
  by (simp add: consumeConnectionSessionEvent_def prim_defs Let_def consumerHistory_def)

lemma connection_ended:
  "conn_Status e = SessionEndedStatus \<Longrightarrow>
   consumeConnectionSessionEvent P e s =
     Returned (handleEndedEvent P (info_SessionID (conn_SessionInfo e)) s)"
  by (simp add: consumeConnectionSessionEvent_def)

lemma connection_other:
  "conn_Status e = SessionOtherStatus x \<Longrightarrow> consumeConnectionSessionEvent P e s = Returned s"
  by (simp add: consumeConnectionSessionEvent_def)

section \<open>Fixtures unfolded\<close>

lemmas fixture_defs = exClock_def exHex_def exFromAddress_def exDeps_def kvDeps_def
  exDefinition_def exProposal_def exInfo_def exSession_def exConnCreated_def exConnCreatedNil_def
  exConnEnded_def exSvcCreated_def exSvcRemoved_def exStats_def exPaid_def exWorld_def
  exWorldCurrent_def exWorldFaulty_def exStorage_def NewSessionStorage_def exActive_def
  kvStore_def kvUpdate_def kvGetAllFrom_def sessionStorageBucketName_def consumerHistory_def
  providerHistory_def UTC_def zeroTime_def nilDereference_def

lemmas consumer_defs = consumeServiceSessionEvent_def consumeConnectionSessionEvent_def
  consumeConnectionStatisticsEvent_def consumeConnectionSpendingEvent_def
  handleEndedEvent_def handleCreatedEvent_def prim_defs Let_def

section \<open>Events for a session the table does not hold\<close>

text \<open>
  Claim C6. A statistics event or a payment event for a Session ID that has no entry in
  the table of active sessions leaves the table unchanged and makes no call to the
  persistence port: the consumer takes the lock, looks the session up, logs a warning and
  returns. Nothing else happens, so the event is not kept anywhere.
\<close>

theorem unknown_session_update_dropped:
  assumes "is_update_for sid ev" and "sessionsActive s sid = None"
  shows "deliver P ev s =
           Returned (s\<lparr>trace := trace s @ [MuLock, TableLookup sid,
                       LogWarn ''Received a unknown session update'', MuUnlock]\<rparr>) \<and>
         sessionsActive (state_of (deliver P ev s)) = sessionsActive s \<and>
         world (state_of (deliver P ev s)) = world s \<and>
         storer_calls (effects_since s (state_of (deliver P ev s))) = [] \<and>
         effects_since s (state_of (deliver P ev s)) =
           [MuLock, TableLookup sid, LogWarn ''Received a unknown session update'', MuUnlock]"
proof (cases ev)
  case (ConnectionStatistics e)
  with assms have "sessionsActive s (info_SessionID (stat_SessionInfo e)) = None" by simp
  from statistics_miss [OF this] ConnectionStatistics assms(1) show ?thesis
    by (simp add: storer_calls_def)
next
  case (InvoicePaid e)
  with assms have "sessionsActive s (paid_SessionID e) = None" by simp
  from spending_miss [OF this] InvoicePaid assms(1) show ?thesis
    by (simp add: storer_calls_def)
qed (use assms in simp_all)

theorem unknown_session_update_dropped_witness:
  "is_update_for ''s1'' (InvoicePaid exPaid) \<and>
   sessionsActive (exStorage exWorld) ''s1'' = None \<and>
   sessionsActive (state_of (deliver exDeps (InvoicePaid exPaid) (exStorage exWorld))) = Map.empty \<and>
   world (state_of (deliver exDeps (InvoicePaid exPaid) (exStorage exWorld))) = exWorld \<and>
   storer_calls (effects_since (exStorage exWorld)
     (state_of (deliver exDeps (InvoicePaid exPaid) (exStorage exWorld)))) = []"
proof -
  have h1: "is_update_for ''s1'' (InvoicePaid exPaid)" by (simp add: exPaid_def)
  have h2: "sessionsActive (exStorage exWorld) ''s1'' = None"
    by (simp add: exStorage_def NewSessionStorage_def)
  have h3: "sessionsActive (exStorage exWorld) = Map.empty" "world (exStorage exWorld) = exWorld"
    by (simp_all add: exStorage_def NewSessionStorage_def)
  note t = unknown_session_update_dropped [OF h1 h2, of exDeps]
  from t have a: "sessionsActive (state_of (deliver exDeps (InvoicePaid exPaid) (exStorage exWorld)))
      = sessionsActive (exStorage exWorld)" by blast
  from t have b: "world (state_of (deliver exDeps (InvoicePaid exPaid) (exStorage exWorld)))
      = world (exStorage exWorld)" by blast
  from t have c: "storer_calls (effects_since (exStorage exWorld)
     (state_of (deliver exDeps (InvoicePaid exPaid) (exStorage exWorld)))) = []" by blast
  from h1 h2 a b c show ?thesis unfolding h3 by blast
qed

section \<open>A failed update in the end transition\<close>

text \<open>
  Claim C5. If \<^verbatim>\<open>Update\<close> fails during the end transition for a Session ID, the
  entry for that Session ID remains in the table of active sessions: the table is the
  one before the transition, a lookup that follows finds the entry, and the transition
  made no deletion.
\<close>

theorem end_update_failure_keeps_entry:
  assumes "sessionsActive s sid = Some row"
    and "timeGetter P (world s) = (now, w1)"
    and "Update P sessionStorageBucketName (row\<lparr>Updated := UTC now, Status := StatusCompleted\<rparr>) w1
           = (Some err, w2)"
  shows "sessionsActive (handleEndedEvent P sid s) = sessionsActive s \<and>
         fst (table_lookup sid (handleEndedEvent P sid s)) = Some row \<and>
         TableDelete sid \<notin> set (effects_since s (handleEndedEvent P sid s))"
  using assms(1) by (simp add: handleEndedEvent_fail [OF assms] table_lookup_def)

theorem end_update_failure_keeps_entry_witness:
  "sessionsActive (exActive exWorldFaulty) ''s1'' = Some (consumerHistory exDeps exInfo exDefinition) \<and>
   timeGetter exDeps (world (exActive exWorldFaulty)) = (exClock 0, exWorldFaulty\<lparr>ticks := 1\<rparr>) \<and>
   Update exDeps sessionStorageBucketName
     ((consumerHistory exDeps exInfo exDefinition)\<lparr>Updated := UTC (exClock 0), Status := StatusCompleted\<rparr>)
     (exWorldFaulty\<lparr>ticks := 1\<rparr>) = (Some ''i/o error'', exWorld\<lparr>ticks := 1\<rparr>) \<and>
   fst (table_lookup ''s1'' (handleEndedEvent exDeps ''s1'' (exActive exWorldFaulty)))
     = Some (consumerHistory exDeps exInfo exDefinition)"
proof -
  have h1: "sessionsActive (exActive exWorldFaulty) ''s1'' = Some (consumerHistory exDeps exInfo exDefinition)"
    by (simp add: exActive_def)
  have h2: "timeGetter exDeps (world (exActive exWorldFaulty)) = (exClock 0, exWorldFaulty\<lparr>ticks := 1\<rparr>)"
    by (simp add: exActive_def exDeps_def kvDeps_def exWorldFaulty_def exWorld_def)
  have h3: "Update exDeps sessionStorageBucketName
     ((consumerHistory exDeps exInfo exDefinition)\<lparr>Updated := UTC (exClock 0), Status := StatusCompleted\<rparr>)
     (exWorldFaulty\<lparr>ticks := 1\<rparr>) = (Some ''i/o error'', exWorld\<lparr>ticks := 1\<rparr>)"
    by (simp add: exDeps_def kvDeps_def kvUpdate_def exWorldFaulty_def exWorld_def)
  from end_update_failure_keeps_entry [OF h1 h2 h3] h1 h2 h3 show ?thesis by simp
qed

section \<open>Payment events\<close>

text \<open>
  Claim C7. For a payment (invoice paid) event whose Session ID is present in the table
  of active sessions: when \<^verbatim>\<open>Update\<close> succeeds, the table entry is the record with
  \<^verbatim>\<open>Tokens\<close> set to the invoice's agreement total and \<^verbatim>\<open>Updated\<close> set to the time
  read from the clock, in UTC; when \<^verbatim>\<open>Update\<close> fails, the table is the one before
  the event, so the entry is the record as it was.
\<close>

theorem payment_updates_entry:
  assumes "sessionsActive s (paid_SessionID e) = Some row"
    and "timeGetter P (world s) = (now, w1)"
    and "Update P sessionStorageBucketName
           (row\<lparr>Updated := UTC now, Tokens := AgreementTotal (Invoice e)\<rparr>) w1 = (err, w2)"
  shows "(err = None \<longrightarrow>
            (\<exists>r. sessionsActive (consumeConnectionSpendingEvent P e s) (paid_SessionID e) = Some r \<and>
                 r = row\<lparr>Updated := UTC now, Tokens := AgreementTotal (Invoice e)\<rparr> \<and>
                 Tokens r = AgreementTotal (Invoice e) \<and>
                 Updated r = UTC now \<and> zone (Updated r) = ZoneUTC)) \<and>
         (err \<noteq> None \<longrightarrow>
            sessionsActive (consumeConnectionSpendingEvent P e s) = sessionsActive s \<and>
            sessionsActive (consumeConnectionSpendingEvent P e s) (paid_SessionID e) = Some row)"
proof (cases err)
  case None
  with assms(3) have "Update P sessionStorageBucketName
           (row\<lparr>Updated := UTC now, Tokens := AgreementTotal (Invoice e)\<rparr>) w1 = (None, w2)"
    by simp
  from spending_ok [OF assms(1,2) this] None show ?thesis by (simp add: UTC_def)
next
  case (Some x)
  with assms(3) have "Update P sessionStorageBucketName
           (row\<lparr>Updated := UTC now, Tokens := AgreementTotal (Invoice e)\<rparr>) w1 = (Some x, w2)"
    by simp
  from spending_fail [OF assms(1,2) this] Some assms(1) show ?thesis by simp
qed

theorem payment_updates_entry_witness:
  "sessionsActive (exActive exWorld) (paid_SessionID exPaid) = Some (consumerHistory exDeps exInfo exDefinition) \<and>
   timeGetter exDeps (world (exActive exWorld)) = (exClock 0, exWorld\<lparr>ticks := 1\<rparr>) \<and>
   fst (Update exDeps sessionStorageBucketName
          ((consumerHistory exDeps exInfo exDefinition)\<lparr>Updated := UTC (exClock 0),
             Tokens := AgreementTotal (Invoice exPaid)\<rparr>) (exWorld\<lparr>ticks := 1\<rparr>)) = None \<and>
   sessionsActive (consumeConnectionSpendingEvent exDeps exPaid (exActive exWorld)) (paid_SessionID exPaid)
     = Some ((consumerHistory exDeps exInfo exDefinition)\<lparr>Updated := \<lparr>instant = 1000, zone = ZoneUTC\<rparr>, Tokens := 5\<rparr>) \<and>
   sessionsActive (exActive exWorldFaulty) (paid_SessionID exPaid) = Some (consumerHistory exDeps exInfo exDefinition) \<and>
   timeGetter exDeps (world (exActive exWorldFaulty)) = (exClock 0, exWorldFaulty\<lparr>ticks := 1\<rparr>) \<and>
   fst (Update exDeps sessionStorageBucketName
          ((consumerHistory exDeps exInfo exDefinition)\<lparr>Updated := UTC (exClock 0),
             Tokens := AgreementTotal (Invoice exPaid)\<rparr>) (exWorldFaulty\<lparr>ticks := 1\<rparr>)) = Some ''i/o error'' \<and>
   sessionsActive (consumeConnectionSpendingEvent exDeps exPaid (exActive exWorldFaulty)) (paid_SessionID exPaid)
     = Some (consumerHistory exDeps exInfo exDefinition)"
proof -
  let ?row = "consumerHistory exDeps exInfo exDefinition"
  let ?new = "?row\<lparr>Updated := UTC (exClock 0), Tokens := AgreementTotal (Invoice exPaid)\<rparr>"
  have a1: "sessionsActive (exActive exWorld) (paid_SessionID exPaid) = Some ?row"
    by (simp add: exActive_def exPaid_def)
  have a2: "timeGetter exDeps (world (exActive exWorld)) = (exClock 0, exWorld\<lparr>ticks := 1\<rparr>)"
    by (simp add: exActive_def exDeps_def kvDeps_def exWorld_def)
  obtain w2 where a3: "Update exDeps sessionStorageBucketName ?new (exWorld\<lparr>ticks := 1\<rparr>) = (None, w2)"
    by (simp add: exDeps_def kvDeps_def kvUpdate_def exWorld_def)
  have b1: "sessionsActive (exActive exWorldFaulty) (paid_SessionID exPaid) = Some ?row"
    by (simp add: exActive_def exPaid_def)
  have b2: "timeGetter exDeps (world (exActive exWorldFaulty)) = (exClock 0, exWorldFaulty\<lparr>ticks := 1\<rparr>)"
    by (simp add: exActive_def exDeps_def kvDeps_def exWorldFaulty_def exWorld_def)
  obtain w3 where b3: "Update exDeps sessionStorageBucketName ?new (exWorldFaulty\<lparr>ticks := 1\<rparr>)
      = (Some ''i/o error'', w3)"
    by (simp add: exDeps_def kvDeps_def kvUpdate_def exWorldFaulty_def exWorld_def)
  have v: "?new = ?row\<lparr>Updated := \<lparr>instant = 1000, zone = ZoneUTC\<rparr>, Tokens := 5\<rparr>"
    by (simp add: UTC_def exClock_def exPaid_def)
  from payment_updates_entry [OF a1 a2 a3] payment_updates_entry [OF b1 b2 b3]
    a1 a2 a3 b1 b2 b3 v show ?thesis by simp
qed

section \<open>Statistics events\<close>

text \<open>
  Claim C8. For a statistics event whose Session ID is present in the table of active
  sessions, the consumer overwrites \<^verbatim>\<open>DataSent\<close> and \<^verbatim>\<open>DataReceived\<close> of the entry
  with the values of the event, whatever the entry held before, leaves every other field
  of the record and every other entry unchanged, and makes no call to the persistence
  port.
\<close>

theorem statistics_overwrite_counters:
  assumes "sessionsActive s (info_SessionID (stat_SessionInfo e)) = Some row"
  shows "sessionsActive (consumeConnectionStatisticsEvent e s) =
           (sessionsActive s)(info_SessionID (stat_SessionInfo e) \<mapsto>
              row\<lparr>DataSent := BytesSent (Stats e), DataReceived := BytesReceived (Stats e)\<rparr>) \<and>
         (\<exists>r. sessionsActive (consumeConnectionStatisticsEvent e s)
                (info_SessionID (stat_SessionInfo e)) = Some r \<and>
              DataSent r = BytesSent (Stats e) \<and> DataReceived r = BytesReceived (Stats e) \<and>
              SessionID r = SessionID row \<and> Direction r = Direction row \<and>
              ConsumerID r = ConsumerID row \<and> AccountantID r = AccountantID row \<and>
              ProviderID r = ProviderID row \<and> ServiceType r = ServiceType row \<and>
              ProviderCountry r = ProviderCountry row \<and> Tokens r = Tokens row \<and>
              Status r = Status row \<and> Started r = Started row \<and> Updated r = Updated row) \<and>
         world (consumeConnectionStatisticsEvent e s) = world s \<and>
         storer_calls (effects_since s (consumeConnectionStatisticsEvent e s)) = []"
  by (simp add: statistics_hit [OF assms] storer_calls_def)

theorem statistics_overwrite_counters_witness:
  "sessionsActive (exActive exWorld) (info_SessionID (stat_SessionInfo exStats))
     = Some (consumerHistory exDeps exInfo exDefinition) \<and>
   sessionsActive (consumeConnectionStatisticsEvent exStats (exActive exWorld)) ''s1''
     = Some ((consumerHistory exDeps exInfo exDefinition)\<lparr>DataSent := 100, DataReceived := 50\<rparr>) \<and>
   world (consumeConnectionStatisticsEvent exStats (exActive exWorld)) = exWorld"
proof -
  have h: "sessionsActive (exActive exWorld) (info_SessionID (stat_SessionInfo exStats))
     = Some (consumerHistory exDeps exInfo exDefinition)"
    by (simp add: exActive_def exStats_def exInfo_def)
  have v: "info_SessionID (stat_SessionInfo exStats) = ''s1''" "BytesSent (Stats exStats) = 100"
    "BytesReceived (Stats exStats) = 50" "world (exActive exWorld) = exWorld"
    by (simp_all add: exStats_def exInfo_def exActive_def)
  from statistics_overwrite_counters [OF h] h v show ?thesis by simp
qed

section \<open>Reading the history\<close>

text \<open>
  Claim C9. \<^verbatim>\<open>GetAll\<close> returns exactly the records that the bulk read of the
  persistence port yields for the session history collection. It never consults the table
  of active sessions: its only effect is the call of \<^verbatim>\<open>GetAllFrom\<close>, its result is the
  same whatever the table holds, and it leaves the table as it is. If the bulk read
  fails, \<^verbatim>\<open>GetAll\<close> returns the error and no records.
\<close>

theorem GetAll_reads_the_port_only:
  assumes "GetAllFrom P sessionStorageBucketName (world s) = ((sessions, err), w1)"
  shows "fst (GetAll P s) = (case err of None \<Rightarrow> Inr sessions | Some x \<Rightarrow> Inl x) \<and>
         fst (GetAll P (s\<lparr>sessionsActive := t\<rparr>)) = fst (GetAll P s) \<and>
         sessionsActive (snd (GetAll P s)) = sessionsActive s \<and>
         world (snd (GetAll P s)) = w1 \<and>
         effects_since s (snd (GetAll P s)) = [CallGetAllFrom sessionStorageBucketName]"
  using assms
  by (simp add: GetAll_def call_GetAllFrom_def emit_def effects_since_def split: option.splits)

theorem GetAll_reads_the_port_only_witness:
  "GetAllFrom exDeps sessionStorageBucketName (world (exActive exWorld)) = (([], None), exWorld) \<and>
   sessionsActive (exActive exWorld) ''s1'' \<noteq> None \<and>
   fst (GetAll exDeps (exActive exWorld)) = Inr []"
proof -
  have h: "GetAllFrom exDeps sessionStorageBucketName (world (exActive exWorld)) = (([], None), exWorld)"
    by (simp add: exDeps_def kvDeps_def kvGetAllFrom_def exActive_def exWorld_def)
  have t: "sessionsActive (exActive exWorld) ''s1'' \<noteq> None"
    by (simp add: exActive_def)
  from GetAll_reads_the_port_only [OF h] h t show ?thesis by simp
qed

section \<open>A connection level created event\<close>

text \<open>
  For a created event whose proposal carries a service definition, the consumer returns;
  it has put into the table the consumer record, whose \<^verbatim>\<open>DataSent\<close>,
  \<^verbatim>\<open>DataReceived\<close> and \<^verbatim>\<open>Tokens\<close> are zero and whose \<^verbatim>\<open>Updated\<close> is the zero
  time, and the create transition has applied \<^verbatim>\<open>Store\<close> to that record with its
  status set to New: the outside world is the one \<^verbatim>\<open>Store\<close> returned, the trace has
  this one call of \<^verbatim>\<open>Store\<close>, and the table holds the record with the status New
  when \<^verbatim>\<open>Store\<close> succeeded and the record as inserted when it failed.
\<close>

lemma connection_created_stores_record:
  assumes "conn_Status e = SessionCreatedStatus"
    and "prop_ServiceDefinition (info_Proposal (conn_SessionInfo e)) = Some d"
    and "Store P sessionStorageBucketName
           ((consumerHistory P (conn_SessionInfo e) d)\<lparr>Status := StatusNew\<rparr>) (world s) = (err, w2)"
  shows "\<exists>s'. consumeConnectionSessionEvent P e s = Returned s' \<and>
              world s' = w2 \<and>
              sessionsActive s' =
                (sessionsActive s)(info_SessionID (conn_SessionInfo e) \<mapsto>
                   (if err = None
                    then (consumerHistory P (conn_SessionInfo e) d)\<lparr>Status := StatusNew\<rparr>
                    else consumerHistory P (conn_SessionInfo e) d)) \<and>
              store_calls (effects_since s s') =
                [CallStore sessionStorageBucketName
                   ((consumerHistory P (conn_SessionInfo e) d)\<lparr>Status := StatusNew\<rparr>)] \<and>
              Direction (consumerHistory P (conn_SessionInfo e) d) = DirectionConsumer \<and>
              DataSent (consumerHistory P (conn_SessionInfo e) d) = 0 \<and>
              DataReceived (consumerHistory P (conn_SessionInfo e) d) = 0 \<and>
              Tokens (consumerHistory P (conn_SessionInfo e) d) = 0 \<and>
              Updated (consumerHistory P (conn_SessionInfo e) d) = zeroTime"
proof -
  let ?k = "info_SessionID (conn_SessionInfo e)"
  let ?r = "consumerHistory P (conn_SessionInfo e) d"
  let ?s1 = "s\<lparr>sessionsActive := (sessionsActive s)(?k \<mapsto> ?r),
               trace := trace s @ [MuLock, TableAssign ?k, MuUnlock]\<rparr>"
  have hit: "sessionsActive ?s1 ?k = Some ?r" by simp
  have fields: "Direction ?r = DirectionConsumer \<and> DataSent ?r = 0 \<and> DataReceived ?r = 0 \<and>
      Tokens ?r = 0 \<and> Updated ?r = zeroTime"
    by (simp add: consumerHistory_def)
  show ?thesis
  proof (cases err)
    case None
    with assms(3) have "Store P sessionStorageBucketName (?r\<lparr>Status := StatusNew\<rparr>) (world ?s1)
        = (None, w2)" by simp
    from handleCreatedEvent_ok [OF hit this] None fields show ?thesis
      by (simp add: connection_created [OF assms(1,2)] store_calls_def)
  next
    case (Some x)
    with assms(3) have "Store P sessionStorageBucketName (?r\<lparr>Status := StatusNew\<rparr>) (world ?s1)
        = (Some x, w2)" by simp
    from handleCreatedEvent_fail [OF hit this] Some fields show ?thesis
      by (simp add: connection_created [OF assms(1,2)] store_calls_def)
  qed
qed

text \<open>
  Claim C10. A connection level event with status created inserts a record with the
  direction Consumer whose \<^verbatim>\<open>DataSent\<close>, \<^verbatim>\<open>DataReceived\<close> and \<^verbatim>\<open>Tokens\<close> are zero
  and whose \<^verbatim>\<open>Updated\<close> is the zero time, and the create transition that follows
  persists that record through \<^verbatim>\<open>Store\<close>. The code does so when the proposal of the
  event carries a service definition. At the created event of session \<^verbatim>\<open>s1\<close> whose
  proposal has a nil service definition it does not: the consumer takes the lock and
  panics while it builds the record, so nothing is inserted, \<^verbatim>\<open>Store\<close> is never
  called, the outside world is untouched, and the mutex is left held for writing.
\<close>

theorem created_with_nil_definition_panics:
  "deliver exDeps exConnCreatedNil (exStorage exWorld) =
     Panicked nilDereference
       \<lparr>world = exWorld, sessionsActive = Map.empty, trace = [MuLock]\<rparr> \<and>
   sessionsActive (state_of (deliver exDeps exConnCreatedNil (exStorage exWorld))) ''s1'' = None \<and>
   store_calls (trace (state_of (deliver exDeps exConnCreatedNil (exStorage exWorld)))) = [] \<and>
   mu_run True Free (trace (state_of (deliver exDeps exConnCreatedNil (exStorage exWorld))))
     = Some Exclusive"
proof -
  have "deliver exDeps exConnCreatedNil (exStorage exWorld) =
     Panicked nilDereference
       \<lparr>world = exWorld, sessionsActive = Map.empty, trace = [MuLock]\<rparr>"
    by (simp add: exConnCreatedNil_def connection_created_nil exStorage_def NewSessionStorage_def)
  then show ?thesis by (simp add: store_calls_def)
qed

section \<open>The mutex\<close>

lemma mu_run_append:
  "mu_run strict m (xs @ ys) =
     (case mu_run strict m xs of None \<Rightarrow> None | Some m' \<Rightarrow> mu_run strict m' ys)"
  by (induction xs arbitrary: m) (auto split: option.splits)

lemma effects_since_trans:
  assumes "trace s1 = trace s @ pre" and "\<exists>es. trace s2 = trace s1 @ es"
  shows "effects_since s s2 = pre @ effects_since s1 s2"
  using assms by (auto simp: effects_since_def)

lemma handleEndedEvent_trace:
  "\<exists>es. trace (handleEndedEvent P k s) = trace s @ es"
  by (auto simp: handleEndedEvent_def prim_defs Let_def split: option.splits prod.splits)

lemma handleCreatedEvent_trace:
  "\<exists>es. trace (handleCreatedEvent P k s) = trace s @ es"
  by (auto simp: handleCreatedEvent_def prim_defs Let_def split: option.splits prod.splits)

lemma handleEndedEvent_held:
  "mu_run False Free (effects_since s (handleEndedEvent P k s)) = Some Free"
  by (auto simp: handleEndedEvent_def prim_defs Let_def effects_since_def
      split: option.splits prod.splits)

lemma handleCreatedEvent_exclusive:
  "mu_run strict Free (effects_since s (handleCreatedEvent P k s)) = Some Free"
  by (auto simp: handleCreatedEvent_def prim_defs Let_def effects_since_def
      split: option.splits prod.splits)

lemma statistics_exclusive:
  "mu_run strict Free (effects_since s (consumeConnectionStatisticsEvent e s)) = Some Free"
  by (auto simp: consumeConnectionStatisticsEvent_def prim_defs Let_def effects_since_def
      split: option.splits prod.splits)

lemma spending_exclusive:
  "mu_run strict Free (effects_since s (consumeConnectionSpendingEvent P e s)) = Some Free"
  by (auto simp: consumeConnectionSpendingEvent_def prim_defs Let_def effects_since_def
      split: option.splits prod.splits)

text \<open>
  Every consumer accesses the table while it holds the mutex, in one mode or the other.
  A consumer that returns leaves the mutex free; one that panics leaves it held for
  writing.
\<close>

lemma deliver_holds_mutex:
  "mu_run False Free (effects_since s (state_of (deliver P ev s))) =
     Some (if returned (deliver P ev s) then Free else Exclusive)"
proof (cases ev)
  case (ServiceSession e)
  obtain r w1 where f: "Find P (ev_ID e) (world s) = (r, w1)"
    by (cases "Find P (ev_ID e) (world s)")
  show ?thesis
  proof (cases r)
    case None
    with f ServiceSession show ?thesis by (simp add: service_notfound)
  next
    case (Some i)
    show ?thesis
    proof (cases "prop_ServiceDefinition (sess_Proposal i)")
      case None
      with f Some ServiceSession show ?thesis by (simp add: service_nil)
    next
      case (Some d)
      let ?s1 = "s\<lparr>world := w1,
          sessionsActive := (sessionsActive s)(ev_ID e \<mapsto> providerHistory P (ev_ID e) i d),
          trace := trace s @ [CallFind (ev_ID e), MuLock, TableAssign (ev_ID e), MuUnlock]\<rparr>"
      have pre: "trace ?s1 = trace s @ [CallFind (ev_ID e), MuLock, TableAssign (ev_ID e), MuUnlock]"
        by simp
      from f \<open>r = Some i\<close> have f': "Find P (ev_ID e) (world s) = (Some i, w1)" by simp
      show ?thesis
      proof (cases "ev_Status e")
        case CreatedStatus
        with ServiceSession show ?thesis
          by (simp add: service_found [OF f' Some]
              effects_since_trans [OF pre handleCreatedEvent_trace]
              mu_run_append handleCreatedEvent_exclusive)
      next
        case RemovedStatus
        with ServiceSession show ?thesis
          by (simp add: service_found [OF f' Some]
              effects_since_trans [OF pre handleEndedEvent_trace]
              mu_run_append handleEndedEvent_held)
      next
        case (OtherStatus x)
        with ServiceSession show ?thesis by (simp add: service_found [OF f' Some])
      qed
    qed
  qed
next
  case (ConnectionSession e)
  let ?k = "info_SessionID (conn_SessionInfo e)"
  show ?thesis
  proof (cases "conn_Status e")
    case SessionCreatedStatus
    show ?thesis
    proof (cases "prop_ServiceDefinition (info_Proposal (conn_SessionInfo e))")
      case None
      with SessionCreatedStatus ConnectionSession show ?thesis
        by (simp add: connection_created_nil)
    next
      case (Some d)
      let ?s1 = "s\<lparr>sessionsActive := (sessionsActive s)(?k \<mapsto> consumerHistory P (conn_SessionInfo e) d),
              trace := trace s @ [MuLock, TableAssign ?k, MuUnlock]\<rparr>"
      have pre: "trace ?s1 = trace s @ [MuLock, TableAssign ?k, MuUnlock]" by simp
      from ConnectionSession show ?thesis
        by (simp add: connection_created [OF SessionCreatedStatus Some]
            effects_since_trans [OF pre handleCreatedEvent_trace]
            mu_run_append handleCreatedEvent_exclusive)
    qed
  next
    case SessionEndedStatus
    with ConnectionSession show ?thesis
      by (simp add: connection_ended handleEndedEvent_held)
  next
    case (SessionOtherStatus x)
    with ConnectionSession show ?thesis
      by (simp add: connection_other effects_since_def)
  qed
next
  case (ConnectionStatistics e)
  then show ?thesis by (simp add: statistics_exclusive)
next
  case (InvoicePaid e)
  then show ?thesis by (simp add: spending_exclusive)
qed

text \<open>
  Claim C3. Every access to the table of active sessions happens under the table wide
  reader/writer lock, and every consumer holds the lock for the whole of a
  read-modify-write sequence on the table, the end transition included. The end
  transition does hold the mutex from its lookup to its deletion, but for reading only
  (\<^verbatim>\<open>RLock\<close>): at a connection level ended event for a session in the table, the
  deletion from the map happens while the mutex is held in shared mode, which the strict
  discipline rejects and the lenient one accepts.
\<close>

theorem end_transition_deletes_under_read_lock:
  "returned (deliver exDeps exConnEnded (exActive exWorld)) \<and>
   mutex_view (effects_since (exActive exWorld)
      (state_of (deliver exDeps exConnEnded (exActive exWorld)))) =
     [MuRLock, TableLookup ''s1'', TableDelete ''s1'', MuRUnlock] \<and>
   mu_run True Free (effects_since (exActive exWorld)
      (state_of (deliver exDeps exConnEnded (exActive exWorld)))) = None \<and>
   mu_run False Free (effects_since (exActive exWorld)
      (state_of (deliver exDeps exConnEnded (exActive exWorld)))) = Some Free \<and>
   sessionsActive (state_of (deliver exDeps exConnEnded (exActive exWorld))) ''s1'' = None"
proof -
  let ?row = "consumerHistory exDeps exInfo exDefinition"
  have h1: "sessionsActive (exActive exWorld) ''s1'' = Some ?row"
    by (simp add: exActive_def)
  have h2: "timeGetter exDeps (world (exActive exWorld)) = (exClock 0, exWorld\<lparr>ticks := 1\<rparr>)"
    by (simp add: exActive_def exDeps_def kvDeps_def exWorld_def)
  obtain w2 where h3: "Update exDeps sessionStorageBucketName
      (?row\<lparr>Updated := UTC (exClock 0), Status := StatusCompleted\<rparr>) (exWorld\<lparr>ticks := 1\<rparr>) = (None, w2)"
    by (simp add: exDeps_def kvDeps_def kvUpdate_def exWorld_def)
  have e: "deliver exDeps exConnEnded (exActive exWorld) =
      Returned (handleEndedEvent exDeps ''s1'' (exActive exWorld))"
    by (simp add: exConnEnded_def connection_ended exInfo_def)
  show ?thesis
    unfolding e by (simp add: handleEndedEvent_ok [OF h1 h2 h3])
qed

text \<open>
  The other read-modify-write sequences (the create transition, the statistics consumer
  and the payment consumer) pass the strict discipline: they take the write lock.
\<close>

lemma other_sequences_hold_write_lock:
  "mu_run True Free (effects_since s (handleCreatedEvent P k s)) = Some Free \<and>
   mu_run True Free (effects_since s (consumeConnectionStatisticsEvent e1 s)) = Some Free \<and>
   mu_run True Free (effects_since s (consumeConnectionSpendingEvent P e2 s)) = Some Free"
  by (simp add: handleCreatedEvent_exclusive statistics_exclusive spending_exclusive)

section \<open>Duplicate end events\<close>

lemma exAfterRemoved_eq:
  "deliver exDeps exSvcRemoved (exStorage exWorldCurrent) = Returned exAfterRemoved \<and>
   exAfterRemoved =
     \<lparr>world = exWorldCurrent
        \<lparr>buckets := (\<lambda>b. [])(''session-history'' :=
             [(providerHistory exDeps ''s1'' exSession exDefinition)
                \<lparr>Updated := \<lparr>instant = 1000, zone = ZoneUTC\<rparr>, Status := StatusCompleted\<rparr>]),
          ticks := 1\<rparr>,
      sessionsActive = Map.empty,
      trace = [CallFind ''s1'', MuLock, TableAssign ''s1'', MuUnlock, MuRLock,
               TableLookup ''s1'', CallTimeGetter,
               CallUpdate ''session-history''
                 ((providerHistory exDeps ''s1'' exSession exDefinition)
                    \<lparr>Updated := \<lparr>instant = 1000, zone = ZoneUTC\<rparr>, Status := StatusCompleted\<rparr>),
               TableDelete ''s1'', LogDebug ''Session s1 updated with final data'', MuRUnlock]\<rparr>"
  by (simp add: exAfterRemoved_def consumer_defs fixture_defs)

text \<open>
  Claim C4, as stated, fails for the service level removed event. The first delivery ends
  the session \<^verbatim>\<open>s1\<close>: one \<^verbatim>\<open>Update\<close>, and the entry is gone from the table. The
  session is still current, so the second delivery puts the record back into the table
  and calls \<^verbatim>\<open>Update\<close> a second time, which the port applies: the durable record
  carries the time of the second delivery.
\<close>

theorem duplicate_removed_updates_again:
  "sessionsActive exAfterRemoved ''s1'' = None \<and>
   storer_calls (trace exAfterRemoved) =
     [CallUpdate ''session-history''
        ((providerHistory exDeps ''s1'' exSession exDefinition)
           \<lparr>Updated := \<lparr>instant = 1000, zone = ZoneUTC\<rparr>, Status := StatusCompleted\<rparr>)] \<and>
   returned (deliver exDeps exSvcRemoved exAfterRemoved) \<and>
   storer_calls (effects_since exAfterRemoved
      (state_of (deliver exDeps exSvcRemoved exAfterRemoved))) =
     [CallUpdate ''session-history''
        ((providerHistory exDeps ''s1'' exSession exDefinition)
           \<lparr>Updated := \<lparr>instant = 1001, zone = ZoneUTC\<rparr>, Status := StatusCompleted\<rparr>)] \<and>
   durable (world (state_of (deliver exDeps exSvcRemoved exAfterRemoved))) =
     [(providerHistory exDeps ''s1'' exSession exDefinition)
        \<lparr>Updated := \<lparr>instant = 1001, zone = ZoneUTC\<rparr>, Status := StatusCompleted\<rparr>]"
  unfolding exAfterRemoved_eq [THEN conjunct2]
  by (simp add: exSvcRemoved_def consumer_defs fixture_defs storer_calls_def effects_since_def
      durable_def)

text \<open>
  Claim C4, amended. Events are delivered one after the other, and an end transition for
  a Session ID has succeeded. A connection level ended event for that Session ID is then
  a no-op: it returns without a panic, makes no call to the persistence port, leaves the
  table and the outside world as they are, and logs a warning. A service level removed
  event for that Session ID returns without a panic, with no change of the table and no
  call to the persistence port, when the lookup of current sessions does not find the
  session. When the lookup finds the session, with a service definition in its
  proposal, the event returns without a panic, but it applies \<^verbatim>\<open>Update\<close> once more,
  to the record built from the current session and marked completed: the outside world
  is the one this \<^verbatim>\<open>Update\<close> returned, and the entry is out of the table again when
  the \<^verbatim>\<open>Update\<close> succeeded.
\<close>

theorem duplicate_end_after_success:
  assumes "sessionsActive s0 sid = Some row"
    and "timeGetter P (world s0) = (now, w1)"
    and "Update P sessionStorageBucketName (row\<lparr>Updated := UTC now, Status := StatusCompleted\<rparr>) w1
           = (None, w2)"
    and "s1 = handleEndedEvent P sid s0"
  shows "sessionsActive s1 sid = None \<and>
         (is_connection_end_for sid ev \<longrightarrow>
            deliver P ev s1 =
              Returned (s1\<lparr>trace := trace s1 @ [MuRLock, TableLookup sid,
                     LogWarn (''Can't find session '' @ sid @ '' to update''), MuRUnlock]\<rparr>) \<and>
            storer_calls (effects_since s1 (state_of (deliver P ev s1))) = []) \<and>
         (is_service_end_for sid ev \<and> fst (Find P sid (world s1)) = None \<longrightarrow>
            deliver P ev s1 =
              Returned (s1\<lparr>world := snd (Find P sid (world s1)),
                          trace := trace s1 @
                            [CallFind sid, LogWarn ''Received a unknown session update'']\<rparr>) \<and>
            sessionsActive (state_of (deliver P ev s1)) = sessionsActive s1 \<and>
            storer_calls (effects_since s1 (state_of (deliver P ev s1))) = []) \<and>
         (is_service_end_for sid ev \<and> Find P sid (world s1) = (Some i, w3) \<and>
          prop_ServiceDefinition (sess_Proposal i) = Some d \<and> timeGetter P w3 = (now2, w4) \<longrightarrow>
            (\<exists>s2. deliver P ev s1 = Returned s2 \<and>
                  storer_calls (effects_since s1 s2) =
                    [CallUpdate sessionStorageBucketName
                       ((providerHistory P sid i d)\<lparr>Updated := UTC now2, Status := StatusCompleted\<rparr>)] \<and>
                  world s2 =
                    snd (Update P sessionStorageBucketName
                           ((providerHistory P sid i d)\<lparr>Updated := UTC now2, Status := StatusCompleted\<rparr>)
                           w4) \<and>
                  sessionsActive s2 =
                    (if fst (Update P sessionStorageBucketName
                               ((providerHistory P sid i d)
                                  \<lparr>Updated := UTC now2, Status := StatusCompleted\<rparr>) w4) = None
                     then (sessionsActive s1)(sid := None)
                     else (sessionsActive s1)(sid \<mapsto> providerHistory P sid i d))))"
proof -
  have gone: "sessionsActive s1 sid = None"
    by (simp add: assms(4) handleEndedEvent_ok [OF assms(1-3)])
  have conn: "is_connection_end_for sid ev \<Longrightarrow>
      deliver P ev s1 =
        Returned (s1\<lparr>trace := trace s1 @ [MuRLock, TableLookup sid,
               LogWarn (''Can't find session '' @ sid @ '' to update''), MuRUnlock]\<rparr>)"
    by (cases ev) (auto simp: connection_ended handleEndedEvent_miss [OF gone])
  have conn_calls: "is_connection_end_for sid ev \<Longrightarrow>
      storer_calls (effects_since s1 (state_of (deliver P ev s1))) = []"
    by (simp add: conn storer_calls_def)
  have svc_miss: "is_service_end_for sid ev \<Longrightarrow> fst (Find P sid (world s1)) = None \<Longrightarrow>
      deliver P ev s1 =
        Returned (s1\<lparr>world := snd (Find P sid (world s1)),
           trace := trace s1 @ [CallFind sid, LogWarn ''Received a unknown session update'']\<rparr>)"
  proof -
    assume a: "is_service_end_for sid ev" and b: "fst (Find P sid (world s1)) = None"
    then obtain e where e: "ev = ServiceSession e" "ev_Status e = RemovedStatus" "ev_ID e = sid"
      by (cases ev) auto
    from b e have "Find P (ev_ID e) (world s1) = (None, snd (Find P sid (world s1)))"
      by (cases "Find P sid (world s1)") simp
    from service_notfound [OF this] e show ?thesis by simp
  qed
  have svc_hit: "\<exists>s2. deliver P ev s1 = Returned s2 \<and>
        storer_calls (effects_since s1 s2) =
          [CallUpdate sessionStorageBucketName
             ((providerHistory P sid i d)\<lparr>Updated := UTC now2, Status := StatusCompleted\<rparr>)] \<and>
        world s2 =
          snd (Update P sessionStorageBucketName
                 ((providerHistory P sid i d)\<lparr>Updated := UTC now2, Status := StatusCompleted\<rparr>) w4) \<and>
        sessionsActive s2 =
          (if fst (Update P sessionStorageBucketName
                     ((providerHistory P sid i d)\<lparr>Updated := UTC now2, Status := StatusCompleted\<rparr>)
                     w4) = None
           then (sessionsActive s1)(sid := None)
           else (sessionsActive s1)(sid \<mapsto> providerHistory P sid i d))"
    if a: "is_service_end_for sid ev" and f: "Find P sid (world s1) = (Some i, w3)"
      and d: "prop_ServiceDefinition (sess_Proposal i) = Some d"
      and t: "timeGetter P w3 = (now2, w4)"
  proof -
    from a obtain e where e: "ev = ServiceSession e" "ev_Status e = RemovedStatus" "ev_ID e = sid"
      by (cases ev) auto
    let ?h = "providerHistory P sid i d"
    let ?new = "?h\<lparr>Updated := UTC now2, Status := StatusCompleted\<rparr>"
    let ?s1 = "s1\<lparr>world := w3,
        sessionsActive := (sessionsActive s1)(sid \<mapsto> ?h),
        trace := trace s1 @ [CallFind sid, MuLock, TableAssign sid, MuUnlock]\<rparr>"
    from f e have f': "Find P (ev_ID e) (world s1) = (Some i, w3)" by simp
    have d1: "deliver P ev s1 = Returned (handleEndedEvent P sid ?s1)"
      using e by (simp add: service_found [OF f' d])
    have hit: "sessionsActive ?s1 sid = Some ?h" by simp
    have tm: "timeGetter P (world ?s1) = (now2, w4)" using t by simp
    obtain err w5 where u: "Update P sessionStorageBucketName ?new w4 = (err, w5)"
      by (cases "Update P sessionStorageBucketName ?new w4")
    show ?thesis
    proof (cases err)
      case None
      with u have "Update P sessionStorageBucketName ?new w4 = (None, w5)" by simp
      from handleEndedEvent_ok [OF hit tm this] u None show ?thesis
        by (simp add: d1 storer_calls_def effects_since_def)
    next
      case (Some x)
      with u have "Update P sessionStorageBucketName ?new w4 = (Some x, w5)" by simp
      from handleEndedEvent_fail [OF hit tm this] u Some show ?thesis
        by (simp add: d1 storer_calls_def effects_since_def)
    qed
  qed
  from gone conn conn_calls svc_miss svc_hit show ?thesis
    by (simp add: storer_calls_def)
qed

theorem duplicate_end_after_success_witness:
  "sessionsActive (exActive exWorld) ''s1'' = Some (consumerHistory exDeps exInfo exDefinition) \<and>
   timeGetter exDeps (world (exActive exWorld)) = (exClock 0, exWorld\<lparr>ticks := 1\<rparr>) \<and>
   fst (Update exDeps sessionStorageBucketName
          ((consumerHistory exDeps exInfo exDefinition)
             \<lparr>Updated := UTC (exClock 0), Status := StatusCompleted\<rparr>)
          (exWorld\<lparr>ticks := 1\<rparr>)) = None \<and>
   is_connection_end_for ''s1'' exConnEnded \<and>
   returned (deliver exDeps exConnEnded (exEnded exWorld)) \<and>
   storer_calls (effects_since (exEnded exWorld)
     (state_of (deliver exDeps exConnEnded (exEnded exWorld)))) = [] \<and>
   is_service_end_for ''s1'' exSvcRemoved \<and>
   fst (Find exDeps ''s1'' (world (exEnded exWorld))) = None \<and>
   returned (deliver exDeps exSvcRemoved (exEnded exWorld)) \<and>
   storer_calls (effects_since (exEnded exWorld)
     (state_of (deliver exDeps exSvcRemoved (exEnded exWorld)))) = [] \<and>
   sessionsActive (exActive exWorldCurrent) ''s1'' = Some (consumerHistory exDeps exInfo exDefinition) \<and>
   Find exDeps ''s1'' (world (exEnded exWorldCurrent)) = (Some exSession, world (exEnded exWorldCurrent)) \<and>
   prop_ServiceDefinition (sess_Proposal exSession) = Some exDefinition \<and>
   timeGetter exDeps (world (exEnded exWorldCurrent)) =
     (exClock 1, (world (exEnded exWorldCurrent))\<lparr>ticks := 2\<rparr>) \<and>
   (\<exists>s2. deliver exDeps exSvcRemoved (exEnded exWorldCurrent) = Returned s2 \<and>
         storer_calls (effects_since (exEnded exWorldCurrent) s2) =
           [CallUpdate sessionStorageBucketName
              ((providerHistory exDeps ''s1'' exSession exDefinition)
                 \<lparr>Updated := UTC (exClock 1), Status := StatusCompleted\<rparr>)])"
proof -
  let ?row = "consumerHistory exDeps exInfo exDefinition"
  let ?new = "?row\<lparr>Updated := UTC (exClock 0), Status := StatusCompleted\<rparr>"
  have h1: "sessionsActive (exActive exWorld) ''s1'' = Some ?row"
    by (simp add: exActive_def)
  have h2: "timeGetter exDeps (world (exActive exWorld)) = (exClock 0, exWorld\<lparr>ticks := 1\<rparr>)"
    by (simp add: exActive_def exDeps_def kvDeps_def exWorld_def)
  obtain w2 where h3: "Update exDeps sessionStorageBucketName ?new (exWorld\<lparr>ticks := 1\<rparr>) = (None, w2)"
    and cw: "current w2 ''s1'' = None"
    by (simp add: exDeps_def kvDeps_def kvUpdate_def exWorld_def)
  have c: "is_connection_end_for ''s1'' exConnEnded"
    by (simp add: exConnEnded_def exInfo_def)
  have r: "is_service_end_for ''s1'' exSvcRemoved"
    by (simp add: exSvcRemoved_def)
  have f: "fst (Find exDeps ''s1'' (world (exEnded exWorld))) = None"
    unfolding exEnded_def handleEndedEvent_ok [OF h1 h2 h3] by (simp add: exDeps_def kvDeps_def cw)
  have e1: "exEnded exWorld = handleEndedEvent exDeps ''s1'' (exActive exWorld)"
    by (simp add: exEnded_def)
  note t1 = duplicate_end_after_success [OF h1 h2 h3 e1, of exConnEnded]
  note t2 = duplicate_end_after_success [OF h1 h2 h3 e1, of exSvcRemoved]
  from t1 c have a1: "deliver exDeps exConnEnded (exEnded exWorld) =
        Returned ((exEnded exWorld)\<lparr>trace := trace (exEnded exWorld) @ [MuRLock, TableLookup ''s1'',
               LogWarn (''Can't find session '' @ ''s1'' @ '' to update''), MuRUnlock]\<rparr>)"
    and a2: "storer_calls (effects_since (exEnded exWorld)
       (state_of (deliver exDeps exConnEnded (exEnded exWorld)))) = []"
    by blast+
  from a1 have a3: "returned (deliver exDeps exConnEnded (exEnded exWorld))" by simp
  from t2 r f have b1: "deliver exDeps exSvcRemoved (exEnded exWorld) =
        Returned ((exEnded exWorld)\<lparr>world := snd (Find exDeps ''s1'' (world (exEnded exWorld))),
           trace := trace (exEnded exWorld) @
             [CallFind ''s1'', LogWarn ''Received a unknown session update'']\<rparr>)"
    and b2: "storer_calls (effects_since (exEnded exWorld)
       (state_of (deliver exDeps exSvcRemoved (exEnded exWorld)))) = []"
    by blast+
  from b1 have b3: "returned (deliver exDeps exSvcRemoved (exEnded exWorld))" by simp
  have g1: "sessionsActive (exActive exWorldCurrent) ''s1'' = Some ?row"
    by (simp add: exActive_def)
  have g2: "timeGetter exDeps (world (exActive exWorldCurrent)) = (exClock 0, exWorldCurrent\<lparr>ticks := 1\<rparr>)"
    by (simp add: exActive_def exDeps_def kvDeps_def exWorldCurrent_def exWorld_def)
  obtain w5 where g3: "Update exDeps sessionStorageBucketName ?new (exWorldCurrent\<lparr>ticks := 1\<rparr>) = (None, w5)"
    and cw5: "current w5 ''s1'' = Some exSession" and tk5: "ticks w5 = 1"
    by (simp add: exDeps_def kvDeps_def kvUpdate_def exWorldCurrent_def exWorld_def)
  have e2: "exEnded exWorldCurrent = handleEndedEvent exDeps ''s1'' (exActive exWorldCurrent)"
    by (simp add: exEnded_def)
  have wc: "world (exEnded exWorldCurrent) = w5"
    unfolding exEnded_def handleEndedEvent_ok [OF g1 g2 g3] by simp
  have k1: "Find exDeps ''s1'' (world (exEnded exWorldCurrent)) =
      (Some exSession, world (exEnded exWorldCurrent))"
    unfolding wc by (simp add: exDeps_def kvDeps_def cw5)
  have k2: "prop_ServiceDefinition (sess_Proposal exSession) = Some exDefinition"
    by (simp add: exSession_def exProposal_def)
  have k3: "timeGetter exDeps (world (exEnded exWorldCurrent)) =
      (exClock 1, (world (exEnded exWorldCurrent))\<lparr>ticks := 2\<rparr>)"
    unfolding wc by (simp add: exDeps_def kvDeps_def tk5)
  note t3 = duplicate_end_after_success [OF g1 g2 g3 e2, of exSvcRemoved exSession
    "world (exEnded exWorldCurrent)" exDefinition "exClock 1" "(world (exEnded exWorldCurrent))\<lparr>ticks := 2\<rparr>"]
  from t3 r k1 k2 k3 have d: "\<exists>s2. deliver exDeps exSvcRemoved (exEnded exWorldCurrent) = Returned s2 \<and>
         storer_calls (effects_since (exEnded exWorldCurrent) s2) =
           [CallUpdate sessionStorageBucketName
              ((providerHistory exDeps ''s1'' exSession exDefinition)
                 \<lparr>Updated := UTC (exClock 1), Status := StatusCompleted\<rparr>)]"
    by blast
  have u: "fst (Update exDeps sessionStorageBucketName ?new (exWorld\<lparr>ticks := 1\<rparr>)) = None"
    unfolding h3 by simp
  from h1 h2 u c a3 a2 r f b3 b2 g1 k1 k2 k3 d show ?thesis by blast
qed

section \<open>Which events write to the persistence port\<close>

lemma exAfterFailedCreate_eq:
  "deliver exDeps exConnCreated (exStorage exWorldFaulty) = Returned exAfterFailedCreate \<and>
   exAfterFailedCreate =
     \<lparr>world = exWorld,
      sessionsActive = [''s1'' \<mapsto> consumerHistory exDeps exInfo exDefinition],
      trace = [MuLock, TableAssign ''s1'', MuUnlock, MuLock, TableLookup ''s1'',
               CallStore ''session-history''
                 ((consumerHistory exDeps exInfo exDefinition)\<lparr>Status := StatusNew\<rparr>),
               LogError ''i/o error'' ''Session s1 insert failed'', MuUnlock]\<rparr>"
  by (simp add: exAfterFailedCreate_def consumer_defs fixture_defs)

text \<open>
  Claim C2, as stated, fails for the payment event. The engine rejects the \<^verbatim>\<open>Store\<close>
  of the create transition of session \<^verbatim>\<open>s1\<close>, so the durable store stays empty and
  the record stays in the table. The payment event that follows calls \<^verbatim>\<open>Update\<close>,
  the upsert writes the record, and \<^verbatim>\<open>GetAll\<close> returns it: the record became durable
  without a successful \<^verbatim>\<open>Store\<close>.
\<close>

theorem payment_writes_before_store_succeeds:
  "store_calls (trace exAfterFailedCreate) =
     [CallStore ''session-history''
        ((consumerHistory exDeps exInfo exDefinition)\<lparr>Status := StatusNew\<rparr>)] \<and>
   LogError ''i/o error'' ''Session s1 insert failed'' \<in> set (trace exAfterFailedCreate) \<and>
   durable (world exAfterFailedCreate) = [] \<and>
   storer_calls (effects_since exAfterFailedCreate
      (state_of (deliver exDeps (InvoicePaid exPaid) exAfterFailedCreate))) =
     [CallUpdate ''session-history''
        ((consumerHistory exDeps exInfo exDefinition)
           \<lparr>Updated := \<lparr>instant = 1000, zone = ZoneUTC\<rparr>, Tokens := 5\<rparr>)] \<and>
   fst (GetAll exDeps (state_of (deliver exDeps (InvoicePaid exPaid) exAfterFailedCreate))) =
     Inr [(consumerHistory exDeps exInfo exDefinition)
            \<lparr>Updated := \<lparr>instant = 1000, zone = ZoneUTC\<rparr>, Tokens := 5\<rparr>]"
  unfolding exAfterFailedCreate_eq [THEN conjunct2]
  by (simp add: consumer_defs fixture_defs storer_calls_def store_calls_def effects_since_def
      durable_def GetAll_def)

lemma store_calls_append: "store_calls (xs @ ys) = store_calls xs @ store_calls ys"
  by (simp add: store_calls_def)

lemma store_calls_list:
  "store_calls [] = []"
  "store_calls (x # xs) = (if is_store_call x then x # store_calls xs else store_calls xs)"
  by (simp_all add: store_calls_def)

lemma handleEndedEvent_no_store:
  "store_calls (effects_since s (handleEndedEvent P k s)) = []"
  by (auto simp: handleEndedEvent_def prim_defs Let_def effects_since_def store_calls_def
      split: option.splits prod.splits)

lemma statistics_no_store:
  "store_calls (effects_since s (consumeConnectionStatisticsEvent e s)) = []"
  by (auto simp: consumeConnectionStatisticsEvent_def prim_defs Let_def effects_since_def
      store_calls_def split: option.splits prod.splits)

lemma spending_no_store:
  "store_calls (effects_since s (consumeConnectionSpendingEvent P e s)) = []"
  by (auto simp: consumeConnectionSpendingEvent_def prim_defs Let_def effects_since_def
      store_calls_def split: option.splits prod.splits)

text \<open>
  The end transition and the payment consumer do not depend on what \<^verbatim>\<open>Store\<close> is.
\<close>

lemma calls_ignore_Store:
  "call_Update (P\<lparr>Store := f\<rparr>) = call_Update P"
  "call_timeGetter (P\<lparr>Store := f\<rparr>) = call_timeGetter P"
  "call_Find (P\<lparr>Store := f\<rparr>) = call_Find P"
  by (auto simp: call_Update_def call_timeGetter_def call_Find_def fun_eq_iff)

lemma handleEndedEvent_ignores_Store:
  "handleEndedEvent (P\<lparr>Store := f\<rparr>) k s = handleEndedEvent P k s"
  unfolding handleEndedEvent_def calls_ignore_Store ..

lemma spending_ignores_Store:
  "consumeConnectionSpendingEvent (P\<lparr>Store := f\<rparr>) e s = consumeConnectionSpendingEvent P e s"
  unfolding consumeConnectionSpendingEvent_def calls_ignore_Store ..

lemma deliver_ignores_Store:
  assumes "\<not> is_created_event ev"
  shows "deliver (P\<lparr>Store := f\<rparr>) ev s = deliver P ev s"
proof (cases ev)
  case (ServiceSession e)
  with assms have "ev_Status e \<noteq> CreatedStatus" by simp
  with ServiceSession show ?thesis
    by (cases "ev_Status e")
       (simp_all add: consumeServiceSessionEvent_def calls_ignore_Store
          handleEndedEvent_ignores_Store Let_def providerHistory_def
          split: prod.splits option.splits)
next
  case (ConnectionSession e)
  with assms have "conn_Status e \<noteq> SessionCreatedStatus" by simp
  with ConnectionSession show ?thesis
    by (cases "conn_Status e")
       (simp_all add: consumeConnectionSessionEvent_def handleEndedEvent_ignores_Store)
next
  case (ConnectionStatistics e)
  then show ?thesis by simp
next
  case (InvoicePaid e)
  then show ?thesis by (simp add: spending_ignores_Store)
qed

lemma store_only_when_created:
  assumes "\<not> is_created_event ev"
  shows "store_calls (effects_since s (state_of (deliver P ev s))) = []"
proof (cases ev)
  case (ServiceSession e)
  obtain r w1 where f: "Find P (ev_ID e) (world s) = (r, w1)"
    by (cases "Find P (ev_ID e) (world s)")
  show ?thesis
  proof (cases r)
    case None
    with f ServiceSession show ?thesis by (simp add: service_notfound store_calls_def)
  next
    case (Some i)
    with f have f': "Find P (ev_ID e) (world s) = (Some i, w1)" by simp
    show ?thesis
    proof (cases "prop_ServiceDefinition (sess_Proposal i)")
      case None
      with ServiceSession show ?thesis by (simp add: service_nil [OF f'] store_calls_def)
    next
      case (Some d)
      let ?s1 = "s\<lparr>world := w1,
          sessionsActive := (sessionsActive s)(ev_ID e \<mapsto> providerHistory P (ev_ID e) i d),
          trace := trace s @ [CallFind (ev_ID e), MuLock, TableAssign (ev_ID e), MuUnlock]\<rparr>"
      have pre: "trace ?s1 = trace s @ [CallFind (ev_ID e), MuLock, TableAssign (ev_ID e), MuUnlock]"
        by simp
      show ?thesis
      proof (cases "ev_Status e")
        case CreatedStatus
        with assms ServiceSession show ?thesis by simp
      next
        case RemovedStatus
        with ServiceSession show ?thesis
          by (simp add: service_found [OF f' Some]
              effects_since_trans [OF pre handleEndedEvent_trace]
              store_calls_append handleEndedEvent_no_store store_calls_list)
      next
        case (OtherStatus x)
        with ServiceSession show ?thesis
          by (simp add: service_found [OF f' Some] store_calls_def)
      qed
    qed
  qed
next
  case (ConnectionSession e)
  show ?thesis
  proof (cases "conn_Status e")
    case SessionCreatedStatus
    with assms ConnectionSession show ?thesis by simp
  next
    case SessionEndedStatus
    with ConnectionSession show ?thesis
      by (simp add: connection_ended handleEndedEvent_no_store)
  next
    case (SessionOtherStatus x)
    with ConnectionSession show ?thesis
      by (simp add: connection_other effects_since_def store_calls_def)
  qed
next
  case (ConnectionStatistics e)
  then show ?thesis by (simp add: statistics_no_store)
next
  case (InvoicePaid e)
  then show ?thesis by (simp add: spending_no_store)
qed

text \<open>
  Claim C2, amended. \<^verbatim>\<open>Store\<close> is called only by an event that runs the create
  transition: what any other event does is the same whatever \<^verbatim>\<open>Store\<close> is, and its
  trace has no call of \<^verbatim>\<open>Store\<close>. A statistics event never calls the persistence
  port and leaves the outside world as it is: it changes the table only. A payment event
  for a Session ID present in the table applies \<^verbatim>\<open>Update\<close> to the record of the
  table, its \<^verbatim>\<open>Tokens\<close> and \<^verbatim>\<open>Updated\<close> set, whatever the status of that record, so
  also when the \<^verbatim>\<open>Store\<close> of the create transition has not succeeded: the outside
  world is the one this \<^verbatim>\<open>Update\<close> returned.
\<close>

theorem durable_writes_by_event:
  "(\<not> is_created_event ev \<longrightarrow>
      deliver (P\<lparr>Store := f\<rparr>) ev s = deliver P ev s \<and>
      store_calls (effects_since s (state_of (deliver P ev s))) = []) \<and>
   storer_calls (effects_since s (consumeConnectionStatisticsEvent e1 s)) = [] \<and>
   world (consumeConnectionStatisticsEvent e1 s) = world s \<and>
   (sessionsActive s (paid_SessionID e2) = Some row \<and> timeGetter P (world s) = (now, w1) \<longrightarrow>
      storer_calls (effects_since s (consumeConnectionSpendingEvent P e2 s)) =
        [CallUpdate sessionStorageBucketName
           (row\<lparr>Updated := UTC now, Tokens := AgreementTotal (Invoice e2)\<rparr>)] \<and>
      world (consumeConnectionSpendingEvent P e2 s) =
        snd (Update P sessionStorageBucketName
               (row\<lparr>Updated := UTC now, Tokens := AgreementTotal (Invoice e2)\<rparr>) w1))"
proof -
  have a: "\<not> is_created_event ev \<longrightarrow>
      deliver (P\<lparr>Store := f\<rparr>) ev s = deliver P ev s \<and>
      store_calls (effects_since s (state_of (deliver P ev s))) = []"
    using store_only_when_created [where ev = ev and s = s and P = P]
      deliver_ignores_Store [where ev = ev and P = P and f = f and s = s] by blast
  have b: "storer_calls (effects_since s (consumeConnectionStatisticsEvent e1 s)) = [] \<and>
           world (consumeConnectionStatisticsEvent e1 s) = world s"
    by (auto simp: consumeConnectionStatisticsEvent_def prim_defs Let_def effects_since_def
        storer_calls_def split: option.splits prod.splits)
  have c: "storer_calls (effects_since s (consumeConnectionSpendingEvent P e2 s)) =
        [CallUpdate sessionStorageBucketName
           (row\<lparr>Updated := UTC now, Tokens := AgreementTotal (Invoice e2)\<rparr>)] \<and>
      world (consumeConnectionSpendingEvent P e2 s) =
        snd (Update P sessionStorageBucketName
               (row\<lparr>Updated := UTC now, Tokens := AgreementTotal (Invoice e2)\<rparr>) w1)"
    if h: "sessionsActive s (paid_SessionID e2) = Some row" "timeGetter P (world s) = (now, w1)"
  proof -
    obtain err w2 where u: "Update P sessionStorageBucketName
        (row\<lparr>Updated := UTC now, Tokens := AgreementTotal (Invoice e2)\<rparr>) w1 = (err, w2)"
      by (cases "Update P sessionStorageBucketName
        (row\<lparr>Updated := UTC now, Tokens := AgreementTotal (Invoice e2)\<rparr>) w1")
    show ?thesis
    proof (cases err)
      case None
      with u have "Update P sessionStorageBucketName
        (row\<lparr>Updated := UTC now, Tokens := AgreementTotal (Invoice e2)\<rparr>) w1 = (None, w2)"
        by simp
      from spending_ok [OF h this] u show ?thesis by (simp add: storer_calls_def)
    next
      case (Some x)
      with u have "Update P sessionStorageBucketName
        (row\<lparr>Updated := UTC now, Tokens := AgreementTotal (Invoice e2)\<rparr>) w1 = (Some x, w2)"
        by simp
      from spending_fail [OF h this] u show ?thesis by (simp add: storer_calls_def)
    qed
  qed
  from a b c show ?thesis by blast
qed

theorem durable_writes_by_event_witness:
  "\<not> is_created_event exConnEnded \<and>
   deliver (exDeps\<lparr>Store := kvUpdate\<rparr>) exConnEnded (exStorage exWorld) =
     deliver exDeps exConnEnded (exStorage exWorld) \<and>
   store_calls (effects_since (exStorage exWorld)
      (state_of (deliver exDeps exConnEnded (exStorage exWorld)))) = [] \<and>
   sessionsActive (exStorage exWorld) (paid_SessionID exPaid) = None \<and>
   world (consumeConnectionStatisticsEvent exStats (exStorage exWorld)) = world (exStorage exWorld) \<and>
   sessionsActive exAfterFailedCreate (paid_SessionID exPaid)
     = Some (consumerHistory exDeps exInfo exDefinition) \<and>
   Status (consumerHistory exDeps exInfo exDefinition) = StatusUnset \<and>
   timeGetter exDeps (world exAfterFailedCreate) = (exClock 0, exWorld\<lparr>ticks := 1\<rparr>) \<and>
   storer_calls (effects_since exAfterFailedCreate
      (consumeConnectionSpendingEvent exDeps exPaid exAfterFailedCreate)) =
     [CallUpdate sessionStorageBucketName
        ((consumerHistory exDeps exInfo exDefinition)
           \<lparr>Updated := UTC (exClock 0), Tokens := AgreementTotal (Invoice exPaid)\<rparr>)] \<and>
   world (consumeConnectionSpendingEvent exDeps exPaid exAfterFailedCreate) =
     snd (Update exDeps sessionStorageBucketName
            ((consumerHistory exDeps exInfo exDefinition)
               \<lparr>Updated := UTC (exClock 0), Tokens := AgreementTotal (Invoice exPaid)\<rparr>)
            (exWorld\<lparr>ticks := 1\<rparr>))"
proof -
  let ?row = "consumerHistory exDeps exInfo exDefinition"
  have n: "\<not> is_created_event exConnEnded" by (simp add: exConnEnded_def)
  have m: "sessionsActive (exStorage exWorld) (paid_SessionID exPaid) = None"
    by (simp add: exStorage_def NewSessionStorage_def)
  have h1: "sessionsActive exAfterFailedCreate (paid_SessionID exPaid) = Some ?row"
    unfolding exAfterFailedCreate_eq [THEN conjunct2] by (simp add: exPaid_def)
  have h2: "timeGetter exDeps (world exAfterFailedCreate) = (exClock 0, exWorld\<lparr>ticks := 1\<rparr>)"
    unfolding exAfterFailedCreate_eq [THEN conjunct2] by (simp add: exDeps_def kvDeps_def exWorld_def)
  have h4: "Status ?row = StatusUnset"
    by (simp add: consumerHistory_def)
  note t1 = durable_writes_by_event [where ev = exConnEnded and P = exDeps and f = kvUpdate
      and s = "exStorage exWorld" and ?e1.0 = exStats]
  note t2 = durable_writes_by_event [where P = exDeps and s = exAfterFailedCreate
      and ?e2.0 = exPaid and row = ?row and now = "exClock 0" and ?w1.0 = "exWorld\<lparr>ticks := 1\<rparr>"]
  from t1 n have a: "deliver (exDeps\<lparr>Store := kvUpdate\<rparr>) exConnEnded (exStorage exWorld) =
       deliver exDeps exConnEnded (exStorage exWorld)"
    and b: "store_calls (effects_since (exStorage exWorld)
        (state_of (deliver exDeps exConnEnded (exStorage exWorld)))) = []"
    and c: "world (consumeConnectionStatisticsEvent exStats (exStorage exWorld)) = world (exStorage exWorld)"
    by blast+
  from t2 h1 h2 have d: "storer_calls (effects_since exAfterFailedCreate
      (consumeConnectionSpendingEvent exDeps exPaid exAfterFailedCreate)) =
     [CallUpdate sessionStorageBucketName
        (?row\<lparr>Updated := UTC (exClock 0), Tokens := AgreementTotal (Invoice exPaid)\<rparr>)]"
    and e: "world (consumeConnectionSpendingEvent exDeps exPaid exAfterFailedCreate) =
     snd (Update exDeps sessionStorageBucketName
            (?row\<lparr>Updated := UTC (exClock 0), Tokens := AgreementTotal (Invoice exPaid)\<rparr>)
            (exWorld\<lparr>ticks := 1\<rparr>))"
    by blast+
  from n a b m c h1 h4 h2 d e show ?thesis by blast
qed

section \<open>The history of one session\<close>



















end
